theory Spec2Isabelle
  imports Complex_Main
begin

section \<open>Python values used by app/main.py\<close>

text \<open>
  A \<open>str\<close> is the list of the bytes of its UTF-8 encoding, and uploaded bytes are byte
  strings. A call that can raise returns a sum: \<open>Inl\<close> holds the text of the exception,
  \<open>Inr\<close> the value; \<open>and_then\<close> runs the next call on the value and passes an
  exception on.
\<close>

type_synonym bytes = string

type_synonym 'a raises = "string + 'a"

definition and_then :: "'a raises \<Rightarrow> ('a \<Rightarrow> 'b raises) \<Rightarrow> 'b raises" where
  "and_then m f = (case m of Inl e \<Rightarrow> Inl e | Inr x \<Rightarrow> f x)"

text \<open>
  A Python float is a finite rational, an infinity or nan; \<open>int(f)\<close> truncates a finite
  float towards zero and raises on the others.
\<close>

datatype pyfloat = Finite rat | Infinity | NaN

definition py_int :: "pyfloat \<Rightarrow> int raises" where
  "py_int f = (case f of
      Finite q \<Rightarrow> Inr (if 0 \<le> q then \<lfloor>q\<rfloor> else \<lceil>q\<rceil>)
    | Infinity \<Rightarrow> Inl ''cannot convert float infinity to integer''
    | NaN \<Rightarrow> Inl ''cannot convert float NaN to integer'')"

text \<open>Truthiness of an \<open>Optional[str]\<close>: neither \<open>None\<close> nor the empty string.\<close>

definition truthy :: "string option \<Rightarrow> bool" where
  "truthy v = (case v of None \<Rightarrow> False | Some s \<Rightarrow> s \<noteq> [])"

text \<open>\<open>v or None\<close> on an \<open>Optional[str]\<close>.\<close>

definition or_none :: "string option \<Rightarrow> string option" where
  "or_none v = (if truthy v then v else None)"

text \<open>
  \<open>s.split(d)\<close> for a one-character ASCII separator: in UTF-8 the byte of an ASCII
  character is not part of any other character.
\<close>

fun split_on :: "char \<Rightarrow> string \<Rightarrow> string list" where
  "split_on d [] = [[]]"
| "split_on d (c # cs) =
     (if c = d then [] # split_on d cs
      else (case split_on d cs of
              [] \<Rightarrow> [[c]]
            | p # ps \<Rightarrow> (c # p) # ps))"

text \<open>\<open>arr[idx] if idx < len(arr) else None\<close>.\<close>

definition at_or_none :: "string list \<Rightarrow> nat \<Rightarrow> string option" where
  "at_or_none arr idx = (if idx < length arr then Some (arr ! idx) else None)"

section \<open>The libraries the application calls\<close>

text \<open>
  The image library, the random sources, the password hasher and Python's \<open>float()\<close>
  parser are not part of the repository; the handlers are modelled over any
  implementation of them. \<open>str_strip\<close> is \<open>str.strip()\<close>, which removes the white space
  of Unicode at both ends. \<open>str_to_float\<close> is \<open>float()\<close> on a string, \<open>None\<close> when it
  raises ValueError. The operations of the image library give the text of the
  exception when they raise; the hasher's exceptions are never read, so \<open>None\<close>
  stands for them. The \<open>nat\<close> argument of the random sources is the number of values
  drawn before.
\<close>

record 'img env =
  str_strip :: "string \<Rightarrow> string"
  str_to_float :: "string \<Rightarrow> pyfloat option"
  pil_open :: "bytes \<Rightarrow> 'img raises"
  pil_exif_transpose :: "'img \<Rightarrow> 'img raises"
  pil_thumbnail :: "int \<times> int \<Rightarrow> 'img \<Rightarrow> 'img raises"
  pil_width :: "'img \<Rightarrow> int"
  pil_height :: "'img \<Rightarrow> int"
  pil_crop :: "int \<times> int \<times> int \<times> int \<Rightarrow> 'img \<Rightarrow> 'img raises"
  pil_resize :: "int \<times> int \<Rightarrow> 'img \<Rightarrow> 'img raises"
  pil_save_webp :: "nat \<Rightarrow> 'img \<Rightarrow> bytes raises"
  uuid4_hex :: "nat \<Rightarrow> string"
  token_urlsafe :: "nat \<Rightarrow> string"
  pwd_hash :: "string \<Rightarrow> string option"
  pwd_verify :: "string \<Rightarrow> string \<Rightarrow> bool option"

section \<open>Tables, session and stored files\<close>

record user =
  user_id :: int
  email :: string
  password_hash :: string

record recipe =
  recipe_id :: int
  title :: string
  description :: string
  main_image :: "string option"
  author_id :: "int option"
  view_count :: int

record ingredient =
  ing_id :: int
  ing_recipe_id :: int
  ing_name :: string
  amount :: "string option"
  unit :: "string option"
  ing_order_no :: int

record step =
  step_id :: int
  step_recipe_id :: int
  body :: string
  step_order_no :: int
  image_path :: "string option"

record tag =
  tag_id :: int
  tag_name :: string

text \<open>
  \<open>recipe_tags\<close> holds (recipe_id, tag_id) and \<open>favorites\<close> holds (user_id, recipe_id).
  \<open>recipe_seq\<close> is the AUTOINCREMENT counter of the recipe table; \<open>media\<close> is the
  directory app/media, by file name; \<open>entropy\<close> counts the random values drawn;
  \<open>stdout\<close> collects what the handlers print.
\<close>

record world =
  users :: "user list"
  recipes :: "recipe list"
  recipe_seq :: int
  ingredients :: "ingredient list"
  steps :: "step list"
  tags :: "tag list"
  recipe_tags :: "(int \<times> int) list"
  favorites :: "(int \<times> int) list"
  media :: "string \<Rightarrow> bytes option"
  entropy :: nat
  stdout :: "string list"

record session =
  sess_user_id :: "int option"
  sess_csrf_token :: "string option"

record upload =
  filename :: "string option"
  data :: bytes

text \<open>
  What a handler answers. \<open>HttpError\<close> is a raised \<open>HTTPException\<close>, \<open>ServerError\<close> an
  exception nobody catches; the other constructors are the redirects, the plain
  HTML responses and the rendered templates with their context.
\<close>

datatype response =
    Redirect string nat
  | HttpError nat string
  | HtmlResponse string nat
  | ServerError
  | SignupPage "string option" "string option" "user option"
  | LoginPage "string option" "string option" "user option"
  | RecipeDetailPage recipe "ingredient list" "step list" "tag list" "user option"
  | FavoritesPage "recipe list" user string

section \<open>Row identifiers\<close>

text \<open>
  SQLite gives a new row the largest rowid of the table plus one (1 in an empty
  table); with AUTOINCREMENT the largest rowid ever given counts as well.
\<close>

definition next_rowid :: "int list \<Rightarrow> int" where
  "next_rowid ids = (case ids of [] \<Rightarrow> 1 | i # rest \<Rightarrow> fold max rest i + 1)"

definition next_recipe_id :: "world \<Rightarrow> int" where
  "next_recipe_id w = fold max (map recipe_id (recipes w)) (recipe_seq w) + 1"

text \<open>
  An SQLite INTEGER is a signed 64-bit value. Binding a Python int outside this range
  to a statement raises OverflowError, and a table with AUTOINCREMENT whose largest
  rowid is the largest INTEGER refuses a new row.
\<close>

definition sqlite_integer :: "int \<Rightarrow> bool" where
  "sqlite_integer i = (- 9223372036854775808 \<le> i \<and> i \<le> 9223372036854775807)"

section \<open>Session and CSRF helpers\<close>

text \<open>
  \<open>get_current_user\<close>: \<open>None\<close> for a session without user id (or with the id 0, which
  is falsy), else \<open>s.get(User, uid)\<close>. The session is a signed cookie that only \<open>signup\<close>
  and \<open>login\<close> write, with the id of a stored row, so the id is one SQLite takes.
\<close>

definition get_current_user :: "session \<Rightarrow> world \<Rightarrow> user option" where
  "get_current_user sess w =
     (case sess_user_id sess of
        None \<Rightarrow> None
      | Some uid \<Rightarrow> if uid = 0 then None else find (\<lambda>u. user_id u = uid) (users w))"

text \<open>\<open>_ensure_csrf\<close>: a session without a token draws one.\<close>

definition ensure_csrf :: "'img env \<Rightarrow> session \<Rightarrow> world \<Rightarrow> session \<times> world" where
  "ensure_csrf env sess w =
     (if truthy (sess_csrf_token sess) then (sess, w)
      else (sess\<lparr>sess_csrf_token := Some (token_urlsafe env (entropy w))\<rparr>,
            w\<lparr>entropy := Suc (entropy w)\<rparr>))"

text \<open>
  \<open>secrets.compare_digest\<close> on two \<open>str\<close> raises TypeError when one of them has a
  non-ASCII character.
\<close>

definition is_ascii :: "char \<Rightarrow> bool" where
  "is_ascii c = ((of_char c :: nat) < 128)"

definition compare_digest :: "string \<Rightarrow> string \<Rightarrow> bool option" where
  "compare_digest a b =
     (if list_all is_ascii a \<and> list_all is_ascii b then Some (a = b) else None)"

text \<open>\<open>verify_csrf\<close>: \<open>None\<close> when the token is accepted, else what the request answers.\<close>

definition verify_csrf :: "session \<Rightarrow> string \<Rightarrow> response option" where
  "verify_csrf sess token =
     (case sess_csrf_token sess of
        None \<Rightarrow> Some (HttpError 400 ''Invalid CSRF token'')
      | Some sess_token \<Rightarrow>
          if sess_token = [] \<or> token = [] then Some (HttpError 400 ''Invalid CSRF token'')
          else (case compare_digest sess_token token of
                  None \<Rightarrow> Some ServerError
                | Some ok \<Rightarrow>
                    if ok then None else Some (HttpError 400 ''Invalid CSRF token'')))"

text \<open>
  \<open>_require_login\<close>, \<open>_get_recipe_or_404\<close>, \<open>_require_owner\<close>: \<open>Inl\<close> is what the request
  answers when they raise. \<open>get_recipe\<close> is \<open>session.get(Recipe, rid)\<close> for an id that
  SQLite takes; for another id the query raises OverflowError, which nobody catches.
\<close>

definition require_login :: "session \<Rightarrow> world \<Rightarrow> response + user" where
  "require_login sess w =
     (case get_current_user sess w of
        None \<Rightarrow> Inl (HttpError 401 ''Login required'')
      | Some u \<Rightarrow> Inr u)"

definition get_recipe :: "world \<Rightarrow> int \<Rightarrow> recipe option" where
  "get_recipe w rid = find (\<lambda>r. recipe_id r = rid) (recipes w)"

definition get_recipe_or_404 :: "world \<Rightarrow> int \<Rightarrow> response + recipe" where
  "get_recipe_or_404 w rid =
     (if \<not> sqlite_integer rid then Inl ServerError
      else (case get_recipe w rid of
              None \<Rightarrow> Inl (HttpError 404 ''Not found'')
            | Some r \<Rightarrow> Inr r))"

definition require_owner :: "session \<Rightarrow> world \<Rightarrow> int \<Rightarrow> response + (recipe \<times> user)" where
  "require_owner sess w rid =
     (case require_login sess w of
        Inl e \<Rightarrow> Inl e
      | Inr u \<Rightarrow>
          (case get_recipe_or_404 w rid of
             Inl e \<Rightarrow> Inl e
           | Inr r \<Rightarrow>
               if author_id r \<noteq> Some (user_id u) then Inl (HttpError 403 ''Forbidden'')
               else Inr (r, u)))"

section \<open>Crop fields\<close>

definition to_float_or_none :: "'img env \<Rightarrow> string option \<Rightarrow> pyfloat option" where
  "to_float_or_none env v =
     (case v of
        None \<Rightarrow> None
      | Some s \<Rightarrow> if s = [] then None else str_to_float env s)"

definition to_int_or_none :: "'img env \<Rightarrow> string option \<Rightarrow> int option" where
  "to_int_or_none env v =
     (case v of
        None \<Rightarrow> None
      | Some s \<Rightarrow>
          if s = [] then None
          else (case str_to_float env s of
                  None \<Rightarrow> None
                | Some f \<Rightarrow> (case py_int f of Inl _ \<Rightarrow> None | Inr i \<Rightarrow> Some i)))"

text \<open>One pass of the loop of \<open>_crop_tuple_at\<close>: \<open>arr[idx] if arr and idx < len(arr) else None\<close>, converted.\<close>

definition crop_value_at :: "'img env \<Rightarrow> nat \<Rightarrow> string list option \<Rightarrow> int option" where
  "crop_value_at env idx arr =
     to_int_or_none env (case arr of None \<Rightarrow> None | Some a \<Rightarrow> at_or_none a idx)"

definition crop_tuple_at ::
  "'img env \<Rightarrow> nat \<Rightarrow> string list option \<Rightarrow> string list option \<Rightarrow> string list option \<Rightarrow>
   string list option \<Rightarrow> (int \<times> int \<times> int \<times> int) option" where
  "crop_tuple_at env idx xs ys ws hs =
     (case (crop_value_at env idx xs, crop_value_at env idx ys,
            crop_value_at env idx ws, crop_value_at env idx hs) of
        (Some x, Some y, Some w, Some h) \<Rightarrow> Some (max 0 x, max 0 y, max 1 w, max 1 h)
      | _ \<Rightarrow> None)"

section \<open>Image ingest\<close>

text \<open>
  The clamping of the main image's crop rectangle, as both \<open>recipe_create\<close> and
  \<open>recipe_update\<close> write it: x and y floored at 0, w and h floored at 1, then w and h
  cut to the width and height left of (x, y). The result is (x, y, w, h).
\<close>

definition clamp_crop :: "int \<Rightarrow> int \<Rightarrow> int \<Rightarrow> int \<Rightarrow> int \<Rightarrow> int \<Rightarrow> int \<times> int \<times> int \<times> int" where
  "clamp_crop width height cx cy cw ch =
     (let x = max 0 cx; y = max 0 cy;
          w = max 1 cw; h = max 1 ch;
          w = min w (width - x); h = min h (height - y)
      in (x, y, w, h))"

text \<open>
  The body of the \<open>try\<close> of the main image, on the bytes just written to the file:
  the exception of the first call that raises, else the bytes \<open>im.save\<close> writes.
\<close>

definition main_image_pipeline ::
  "'img env \<Rightarrow> bytes \<Rightarrow> pyfloat option \<Rightarrow> pyfloat option \<Rightarrow> pyfloat option \<Rightarrow>
   pyfloat option \<Rightarrow> bytes raises" where
  "main_image_pipeline env d cx cy cw ch =
     and_then (pil_open env d) (\<lambda>im0.
     and_then (pil_exif_transpose env im0) (\<lambda>im1.
     and_then (pil_thumbnail env (1600, 1600) im1) (\<lambda>im.
     and_then
       (case (cx, cy, cw, ch) of
          (Some fx, Some fy, Some fw, Some fh) \<Rightarrow>
            and_then (py_int fx) (\<lambda>ix.
            and_then (py_int fy) (\<lambda>iy.
            and_then (py_int fw) (\<lambda>iw.
            and_then (py_int fh) (\<lambda>ih.
              (case clamp_crop (pil_width env im) (pil_height env im) ix iy iw ih of
                 (x, y, w, h) \<Rightarrow>
                   and_then (pil_crop env (x, y, x + w, y + h) im)
                     (pil_resize env (1200, 675)))))))
        | _ \<Rightarrow> Inr im)
       (pil_save_webp env 85))))"

text \<open>
  The main image block of \<open>recipe_create\<close> (lines 311-331) and of \<open>recipe_update\<close>
  (lines 478-495): the path it stores, if an image was uploaded, and the files after it.
  An exception in the \<open>try\<close> is passed over in silence, and the file is taken to be
  as \<open>write_bytes\<close> left it.
\<close>

definition save_main_image ::
  "'img env \<Rightarrow> upload option \<Rightarrow> pyfloat option \<Rightarrow> pyfloat option \<Rightarrow> pyfloat option \<Rightarrow>
   pyfloat option \<Rightarrow> world \<Rightarrow> string option \<times> world" where
  "save_main_image env upl cx cy cw ch w =
     (case upl of
        None \<Rightarrow> (None, w)
      | Some up \<Rightarrow>
          if \<not> truthy (filename up) then (None, w)
          else
            let fname = uuid4_hex env (entropy w) @ ''.webp'';
                w1 = w\<lparr>entropy := Suc (entropy w), media := (media w)(fname \<mapsto> data up)\<rparr>;
                w2 = (case main_image_pipeline env (data up) cx cy cw ch of
                        Inr b \<Rightarrow> w1\<lparr>media := (media w1)(fname \<mapsto> b)\<rparr>
                      | Inl _ \<Rightarrow> w1)
            in (Some (''/media/'' @ fname @ ''+''), w2))"

text \<open>The body of the \<open>try\<close> of \<open>save_step_image\<close>.\<close>

definition step_image_pipeline ::
  "'img env \<Rightarrow> bytes \<Rightarrow> int option \<Rightarrow> int option \<Rightarrow> int option \<Rightarrow> int option \<Rightarrow> bytes raises" where
  "step_image_pipeline env d crop_x crop_y crop_w crop_h =
     and_then (pil_open env d) (\<lambda>im0.
     and_then (pil_exif_transpose env im0) (\<lambda>im1.
     and_then (pil_thumbnail env (1600, 1600) im1) (\<lambda>im.
     and_then
       (case (crop_x, crop_y, crop_w, crop_h) of
          (Some x, Some y, Some w0, Some h0) \<Rightarrow>
            (let w = min w0 (pil_width env im - x);
                 h = min h0 (pil_height env im - y)
             in and_then (pil_crop env (x, y, x + w, y + h) im) (pil_resize env (1200, 675)))
        | _ \<Rightarrow> Inr im)
       (pil_save_webp env 85))))"

text \<open>
  \<open>save_step_image\<close>. When the \<open>try\<close> raises, \<open>print("step image save error:", e)\<close> writes
  the prefix, a space and the text of the exception, and the file is taken to be as
  \<open>write_bytes\<close> left it.
\<close>

definition save_step_image ::
  "'img env \<Rightarrow> upload option \<Rightarrow> int option \<Rightarrow> int option \<Rightarrow> int option \<Rightarrow> int option \<Rightarrow>
   world \<Rightarrow> string option \<times> world" where
  "save_step_image env upl crop_x crop_y crop_w crop_h w =
     (case upl of
        None \<Rightarrow> (None, w)
      | Some up \<Rightarrow>
          if \<not> truthy (filename up) then (None, w)
          else
            let fname = uuid4_hex env (entropy w) @ ''.webp'';
                w1 = w\<lparr>entropy := Suc (entropy w), media := (media w)(fname \<mapsto> data up)\<rparr>;
                w2 = (case step_image_pipeline env (data up) crop_x crop_y crop_w crop_h of
                        Inr b \<Rightarrow> w1\<lparr>media := (media w1)(fname \<mapsto> b)\<rparr>
                      | Inl e \<Rightarrow> w1\<lparr>stdout := stdout w1 @ [''step image save error: '' @ e]\<rparr>)
            in (Some (''/media/'' @ fname), w2))"

section \<open>Rows added and selected\<close>

definition add_recipe ::
  "world \<Rightarrow> string \<Rightarrow> string \<Rightarrow> string option \<Rightarrow> int option \<Rightarrow> recipe \<times> world" where
  "add_recipe w t d img author =
     (let r = \<lparr>recipe_id = next_recipe_id w, title = t, description = d, main_image = img,
               author_id = author, view_count = 0\<rparr>
      in (r, w\<lparr>recipes := recipes w @ [r], recipe_seq := recipe_id r\<rparr>))"

definition add_ingredient ::
  "world \<Rightarrow> int \<Rightarrow> string \<Rightarrow> string option \<Rightarrow> string option \<Rightarrow> int \<Rightarrow> world" where
  "add_ingredient w rid nm am un ono =
     w\<lparr>ingredients := ingredients w @
         [\<lparr>ing_id = next_rowid (map ing_id (ingredients w)), ing_recipe_id = rid, ing_name = nm,
           amount = am, unit = un, ing_order_no = ono\<rparr>]\<rparr>"

definition add_step :: "world \<Rightarrow> int \<Rightarrow> string \<Rightarrow> int \<Rightarrow> string option \<Rightarrow> world" where
  "add_step w rid b ono img =
     w\<lparr>steps := steps w @
         [\<lparr>step_id = next_rowid (map step_id (steps w)), step_recipe_id = rid, body = b,
           step_order_no = ono, image_path = img\<rparr>]\<rparr>"

definition add_tag :: "world \<Rightarrow> string \<Rightarrow> tag \<times> world" where
  "add_tag w nm =
     (let t = \<lparr>tag_id = next_rowid (map tag_id (tags w)), tag_name = nm\<rparr>
      in (t, w\<lparr>tags := tags w @ [t]\<rparr>))"

text \<open>The three queries of the detail page: rows of the recipe, by \<open>order_no\<close>; its tags.\<close>

definition select_ingredients :: "world \<Rightarrow> int \<Rightarrow> ingredient list" where
  "select_ingredients w rid =
     sort_key ing_order_no (filter (\<lambda>i. ing_recipe_id i = rid) (ingredients w))"

definition select_steps :: "world \<Rightarrow> int \<Rightarrow> step list" where
  "select_steps w rid =
     sort_key step_order_no (filter (\<lambda>s. step_recipe_id s = rid) (steps w))"

definition select_tags :: "world \<Rightarrow> int \<Rightarrow> tag list" where
  "select_tags w rid = filter (\<lambda>t. (rid, tag_id t) \<in> set (recipe_tags w)) (tags w)"

section \<open>Signup, login, logout\<close>

text \<open>
  The two error messages of the source are Japanese sentences; they stand here as
  \<open>''email already registered''\<close> and \<open>''wrong email or password''\<close>.
\<close>

definition signup ::
  "'img env \<Rightarrow> string \<Rightarrow> string \<Rightarrow> string \<Rightarrow> session \<Rightarrow> world \<Rightarrow> response \<times> session \<times> world" where
  "signup env em pw token sess w =
     (case verify_csrf sess token of
        Some e \<Rightarrow> (e, sess, w)
      | None \<Rightarrow>
          (case find (\<lambda>u. email u = em) (users w) of
             Some _ \<Rightarrow>
               (case ensure_csrf env sess w of
                  (sess1, w1) \<Rightarrow>
                    (SignupPage (Some ''email already registered'') (sess_csrf_token sess1)
                       (get_current_user sess1 w1), sess1, w1))
           | None \<Rightarrow>
               (case pwd_hash env pw of
                  None \<Rightarrow> (ServerError, sess, w)
                | Some h \<Rightarrow>
                    let u = \<lparr>user_id = next_rowid (map user_id (users w)), email = em,
                             password_hash = h\<rparr>
                    in (Redirect ''/'' 303, sess\<lparr>sess_user_id := Some (user_id u)\<rparr>,
                        w\<lparr>users := users w @ [u]\<rparr>))))"

definition login ::
  "'img env \<Rightarrow> string \<Rightarrow> string \<Rightarrow> string \<Rightarrow> session \<Rightarrow> world \<Rightarrow> response \<times> session \<times> world" where
  "login env em pw token sess w =
     (case verify_csrf sess token of
        Some e \<Rightarrow> (e, sess, w)
      | None \<Rightarrow>
          (let failed = (case ensure_csrf env sess w of
                           (sess1, w1) \<Rightarrow>
                             (LoginPage (Some ''wrong email or password'') (sess_csrf_token sess1)
                                (get_current_user sess1 w1), sess1, w1))
           in case find (\<lambda>u. email u = em) (users w) of
                None \<Rightarrow> failed
              | Some u \<Rightarrow>
                  (case pwd_verify env pw (password_hash u) of
                     None \<Rightarrow> (ServerError, sess, w)
                   | Some ok \<Rightarrow>
                       if \<not> ok then failed
                       else (Redirect ''/'' 303, sess\<lparr>sess_user_id := Some (user_id u)\<rparr>, w))))"

definition logout :: "string \<Rightarrow> session \<Rightarrow> world \<Rightarrow> response \<times> session \<times> world" where
  "logout token sess w =
     (case verify_csrf sess token of
        Some e \<Rightarrow> (e, sess, w)
      | None \<Rightarrow> (Redirect ''/'' 303, \<lparr>sess_user_id = None, sess_csrf_token = None\<rparr>, w))"

section \<open>Favorites\<close>

text \<open>
  Decimal digits of a path parameter, for \<open>f"/recipes/{rid}"\<close>. The path parameter is
  any Python int; the first statement that binds it to a query raises OverflowError
  when it is no SQLite INTEGER, and the request is answered with the error 500.
\<close>

fun str_nat :: "nat \<Rightarrow> string" where
  "str_nat n =
     (if n < 10 then [char_of (48 + n)] else str_nat (n div 10) @ [char_of (48 + n mod 10)])"

definition str_int :: "int \<Rightarrow> string" where
  "str_int i = (if i < 0 then CHR ''-'' # str_nat (nat (- i)) else str_nat (nat i))"

definition favorite_recipe ::
  "int \<Rightarrow> string \<Rightarrow> session \<Rightarrow> world \<Rightarrow> response \<times> session \<times> world" where
  "favorite_recipe rid token sess w =
     (case get_current_user sess w of
        None \<Rightarrow> (Redirect ''/login'' 303, sess, w)
      | Some u \<Rightarrow>
          (case verify_csrf sess token of
             Some e \<Rightarrow> (e, sess, w)
           | None \<Rightarrow>
               if \<not> sqlite_integer rid then (ServerError, sess, w)
               else
                 (Redirect (''/recipes/'' @ str_int rid) 303, sess,
                  if find (\<lambda>(uid, r). uid = user_id u \<and> r = rid) (favorites w) = None
                  then w\<lparr>favorites := favorites w @ [(user_id u, rid)]\<rparr>
                  else w)))"

definition unfavorite_recipe ::
  "int \<Rightarrow> string \<Rightarrow> session \<Rightarrow> world \<Rightarrow> response \<times> session \<times> world" where
  "unfavorite_recipe rid token sess w =
     (case get_current_user sess w of
        None \<Rightarrow> (Redirect ''/login'' 303, sess, w)
      | Some u \<Rightarrow>
          (case verify_csrf sess token of
             Some e \<Rightarrow> (e, sess, w)
           | None \<Rightarrow>
               if \<not> sqlite_integer rid then (ServerError, sess, w)
               else
                 (Redirect (''/recipes/'' @ str_int rid) 303, sess,
                  w\<lparr>favorites :=
                      filter (\<lambda>(uid, r). \<not> (uid = user_id u \<and> r = rid)) (favorites w)\<rparr>)))"

definition favorites_page ::
  "'img env \<Rightarrow> string \<Rightarrow> session \<Rightarrow> world \<Rightarrow> response \<times> session \<times> world" where
  "favorites_page env ord sess w =
     (case ensure_csrf env sess w of
        (sess1, w1) \<Rightarrow>
          (case require_login sess1 w1 of
             Inl e \<Rightarrow> (e, sess1, w1)
           | Inr u \<Rightarrow>
               let fav_rids = map snd (filter (\<lambda>(uid, r). uid = user_id u) (favorites w1));
                   found = filter (\<lambda>r. recipe_id r \<in> set fav_rids) (recipes w1);
                   rs = (if fav_rids = [] then []
                         else if ord = ''old'' then sort_key recipe_id found
                         else if ord = ''views'' then sort_key (\<lambda>r. - view_count r) found
                         else rev (sort_key recipe_id found))
               in (FavoritesPage rs u ord, sess1, w1)))"

section \<open>Recipe forms\<close>

text \<open>The form fields of POST /recipes, as \<open>recipe_create\<close> declares them.\<close>

record create_form =
  cf_title :: string
  cf_description :: string
  cf_image :: "upload option"
  cf_ingredients_name :: "string list"
  cf_ingredients_amount :: "string list"
  cf_ingredients_unit :: "string list"
  cf_steps_body :: "string list"
  cf_steps_image :: "upload list"
  cf_steps_crop_x :: "string list option"
  cf_steps_crop_y :: "string list option"
  cf_steps_crop_w :: "string list option"
  cf_steps_crop_h :: "string list option"
  cf_tags_csv :: string
  cf_crop_x :: "string option"
  cf_crop_y :: "string option"
  cf_crop_w :: "string option"
  cf_crop_h :: "string option"
  cf_csrf_token :: string

text \<open>The form fields of POST /recipes/{rid}/edit, as \<open>recipe_update\<close> declares them.\<close>

record update_form =
  uf_title :: string
  uf_csrf_token :: string
  uf_description :: string
  uf_image :: "upload option"
  uf_ingredients_name :: "string list option"
  uf_ingredients_amount :: "string list option"
  uf_steps_body :: "string list option"
  uf_steps_existing_image :: "string list option"
  uf_steps_image :: "upload list option"
  uf_tags_csv :: string
  uf_crop_x :: "string option"
  uf_crop_y :: "string option"
  uf_crop_w :: "string option"
  uf_crop_h :: "string option"

text \<open>\<open>xs or []\<close> on an optional list.\<close>

definition or_empty :: "'a list option \<Rightarrow> 'a list" where
  "or_empty v = (case v of None \<Rightarrow> [] | Some xs \<Rightarrow> xs)"

section \<open>The loops of recipe_create and recipe_update\<close>

text \<open>
  \<open>for idx, name in enumerate(ingredients_name)\<close> of \<open>recipe_create\<close>; \<open>idx\<close> is the
  position of the head of the list that is left.
\<close>

fun create_ingredients ::
  "'img env \<Rightarrow> int \<Rightarrow> string list \<Rightarrow> string list \<Rightarrow> nat \<Rightarrow> string list \<Rightarrow> world \<Rightarrow> world" where
  "create_ingredients env rid amounts units idx [] w = w"
| "create_ingredients env rid amounts units idx (nm # names) w =
     (let name = str_strip env nm in
      if name = [] then create_ingredients env rid amounts units (Suc idx) names w
      else
        let am = or_none (at_or_none amounts idx);
            un = or_none (at_or_none units idx)
        in create_ingredients env rid amounts units (Suc idx) names
             (add_ingredient w rid name (map_option (str_strip env) am)
                (map_option (str_strip env) un) (int idx)))"

text \<open>The same loop in \<open>recipe_update\<close>, which reads no unit.\<close>

fun update_ingredients ::
  "'img env \<Rightarrow> int \<Rightarrow> string list \<Rightarrow> nat \<Rightarrow> string list \<Rightarrow> world \<Rightarrow> world" where
  "update_ingredients env rid amounts idx [] w = w"
| "update_ingredients env rid amounts idx (nm # names) w =
     (let name = str_strip env nm in
      if name = [] then update_ingredients env rid amounts (Suc idx) names w
      else
        let am = or_none (at_or_none amounts idx)
        in update_ingredients env rid amounts (Suc idx) names
             (add_ingredient w rid name (map_option (str_strip env) am) None (int idx)))"

text \<open>
  \<open>for idx in range(max_len)\<close> of \<open>recipe_create\<close>, over the indices left. The crop
  tuple is computed and \<open>save_step_image\<close> is called with the upload alone.
\<close>

fun create_steps :: "'img env \<Rightarrow> int \<Rightarrow> create_form \<Rightarrow> nat list \<Rightarrow> world \<Rightarrow> world" where
  "create_steps env rid f [] w = w"
| "create_steps env rid f (idx # idxs) w =
     (let b0 = str_strip env
                 (if idx < length (cf_steps_body f) then cf_steps_body f ! idx else []);
          b = (if idx < length (cf_steps_body f) then str_strip env (cf_steps_body f ! idx)
               else b0);
          (img_path, w1) =
            (if idx < length (cf_steps_image f) then
               let up = cf_steps_image f ! idx in
               if truthy (filename up) then
                 let crop = crop_tuple_at env idx (cf_steps_crop_x f) (cf_steps_crop_y f)
                              (cf_steps_crop_w f) (cf_steps_crop_h f)
                 in save_step_image env (Some up) None None None None w
               else (None, w)
             else (None, w))
      in if b = [] \<and> \<not> truthy img_path then create_steps env rid f idxs w1
         else create_steps env rid f idxs (add_step w1 rid b (int idx) img_path))"

text \<open>The loop over the steps in \<open>recipe_update\<close>, which keeps the old image of a step without upload.\<close>

fun update_steps ::
  "'img env \<Rightarrow> int \<Rightarrow> string list \<Rightarrow> string list \<Rightarrow> upload list \<Rightarrow> nat list \<Rightarrow> world \<Rightarrow> world" where
  "update_steps env rid bodies olds imgs [] w = w"
| "update_steps env rid bodies olds imgs (idx # idxs) w =
     (let b = str_strip env (if idx < length bodies then bodies ! idx else []);
          keep = or_none (at_or_none olds idx);
          (p, w1) =
            (if idx < length imgs then
               let up = imgs ! idx in
               if truthy (filename up) then save_step_image env (Some up) None None None None w
               else (None, w)
             else (None, w));
          img_path = (if \<not> truthy p then keep else p)
      in if b = [] \<and> \<not> truthy img_path then update_steps env rid bodies olds imgs idxs w1
         else update_steps env rid bodies olds imgs idxs (add_step w1 rid b (int idx) img_path))"

text \<open>\<open>for raw in tags_csv.split(",")\<close>, the same in both handlers.\<close>

fun attach_tags :: "'img env \<Rightarrow> int \<Rightarrow> string list \<Rightarrow> world \<Rightarrow> world" where
  "attach_tags env rid [] w = w"
| "attach_tags env rid (raw # raws) w =
     (let tname = str_strip env raw in
      if tname = [] then attach_tags env rid raws w
      else
        let (t, w1) = (case find (\<lambda>t. tag_name t = tname) (tags w) of
                         Some t \<Rightarrow> (t, w)
                       | None \<Rightarrow> add_tag w tname);
            w2 = (if find (\<lambda>(r, tg). r = rid \<and> tg = tag_id t) (recipe_tags w1) = None
                  then w1\<lparr>recipe_tags := recipe_tags w1 @ [(rid, tag_id t)]\<rparr>
                  else w1)
        in attach_tags env rid raws w2)"

section \<open>Recipes: create, detail, edit, delete\<close>

definition recipe_create ::
  "'img env \<Rightarrow> create_form \<Rightarrow> session \<Rightarrow> world \<Rightarrow> response \<times> session \<times> world" where
  "recipe_create env f sess w =
     (case get_current_user sess w of
        None \<Rightarrow> (Redirect ''/login'' 303, sess, w)
      | Some current_user \<Rightarrow>
          (case verify_csrf sess (cf_csrf_token f) of
             Some e \<Rightarrow> (e, sess, w)
           | None \<Rightarrow>
               let cx = to_float_or_none env (cf_crop_x f);
                   cy = to_float_or_none env (cf_crop_y f);
                   cw = to_float_or_none env (cf_crop_w f);
                   ch = to_float_or_none env (cf_crop_h f);
                   (saved_path, w1) = save_main_image env (cf_image f) cx cy cw ch w
               in
               if \<not> sqlite_integer (next_recipe_id w1) then (ServerError, sess, w1)
               else
                 let (r, w2) = add_recipe w1 (cf_title f) (cf_description f) saved_path
                                 (Some (user_id current_user));
                     w3 = create_ingredients env (recipe_id r) (cf_ingredients_amount f)
                            (cf_ingredients_unit f) 0 (cf_ingredients_name f) w2;
                     max_len = max (length (cf_steps_body f)) (length (cf_steps_image f));
                     w4 = create_steps env (recipe_id r) f [0..<max_len] w3;
                     w5 = attach_tags env (recipe_id r) (split_on CHR '','' (cf_tags_csv f)) w4
                 in (RecipeDetailPage r (select_ingredients w5 (recipe_id r))
                       (select_steps w5 (recipe_id r)) (select_tags w5 (recipe_id r))
                       (Some current_user),
                     sess, w5)))"

text \<open>
  GET /recipes/{rid}. The page's context also has the favourite count and flag, which
  are left out of the response here. An exception nobody catches is answered outside
  the session middleware, so the session of the browser stays as it was.
\<close>

definition recipe_detail ::
  "'img env \<Rightarrow> int \<Rightarrow> session \<Rightarrow> world \<Rightarrow> response \<times> session \<times> world" where
  "recipe_detail env rid sess w =
     (case ensure_csrf env sess w of
        (sess1, w1) \<Rightarrow>
          if \<not> sqlite_integer rid then (ServerError, sess, w1)
          else
            (case get_recipe w1 rid of
               None \<Rightarrow> (HtmlResponse ''Not found'' 404, sess1, w1)
             | Some r \<Rightarrow>
                 if \<not> sqlite_integer (view_count r + 1) then (ServerError, sess, w1)
                 else
                   let r' = r\<lparr>view_count := view_count r + 1\<rparr>;
                       w2 = w1\<lparr>recipes :=
                                map (\<lambda>x. if recipe_id x = rid then r' else x) (recipes w1)\<rparr>
                   in (RecipeDetailPage r' (select_ingredients w2 rid) (select_steps w2 rid)
                         (select_tags w2 rid) (get_current_user sess1 w1),
                       sess1, w2)))"

definition recipe_update ::
  "'img env \<Rightarrow> int \<Rightarrow> update_form \<Rightarrow> session \<Rightarrow> world \<Rightarrow> response \<times> session \<times> world" where
  "recipe_update env rid f sess w =
     (case get_current_user sess w of
        None \<Rightarrow> (Redirect ''/login'' 303, sess, w)
      | Some current_user \<Rightarrow>
          (case verify_csrf sess (uf_csrf_token f) of
             Some e \<Rightarrow> (e, sess, w)
           | None \<Rightarrow>
               let cx = to_float_or_none env (uf_crop_x f);
                   cy = to_float_or_none env (uf_crop_y f);
                   cw = to_float_or_none env (uf_crop_w f);
                   ch = to_float_or_none env (uf_crop_h f)
               in
               if \<not> sqlite_integer rid then (ServerError, sess, w)
               else
               (case get_recipe w rid of
                  None \<Rightarrow> (HtmlResponse ''Not found'' 404, sess, w)
                | Some r \<Rightarrow>
                    if author_id r \<noteq> Some (user_id current_user)
                    then (HtmlResponse ''Forbidden'' 403, sess, w)
                    else
                      let (p, w1) = save_main_image env (uf_image f) cx cy cw ch w;
                          r1 = (case p of None \<Rightarrow> r | Some path \<Rightarrow> r\<lparr>main_image := Some path\<rparr>);
                          r2 = r1\<lparr>title := uf_title f, description := uf_description f\<rparr>;
                          w2 = w1\<lparr>recipes :=
                                   map (\<lambda>x. if recipe_id x = rid then r2 else x) (recipes w1)\<rparr>;
                          w3 = w2\<lparr>ingredients :=
                                   filter (\<lambda>i. ing_recipe_id i \<noteq> rid) (ingredients w2)\<rparr>;
                          w4 = update_ingredients env rid (or_empty (uf_ingredients_amount f)) 0
                                 (or_empty (uf_ingredients_name f)) w3;
                          w5 = w4\<lparr>steps := filter (\<lambda>s. step_recipe_id s \<noteq> rid) (steps w4)\<rparr>;
                          bodies = or_empty (uf_steps_body f);
                          olds = or_empty (uf_steps_existing_image f);
                          imgs = or_empty (uf_steps_image f);
                          max_len = max (max (length bodies) (length olds)) (length imgs);
                          w6 = update_steps env rid bodies olds imgs [0..<max_len] w5;
                          w7 = attach_tags env rid (split_on CHR '','' (uf_tags_csv f)) w6
                      in (Redirect (''/recipes/'' @ str_int rid) 303, sess, w7))))"

definition recipe_delete ::
  "int \<Rightarrow> string \<Rightarrow> session \<Rightarrow> world \<Rightarrow> response \<times> session \<times> world" where
  "recipe_delete rid token sess w =
     (case verify_csrf sess token of
        Some e \<Rightarrow> (e, sess, w)
      | None \<Rightarrow>
          (case require_owner sess w rid of
             Inl e \<Rightarrow> (e, sess, w)
           | Inr (r, u) \<Rightarrow>
               (Redirect ''/'' 303, sess,
                w\<lparr>ingredients := filter (\<lambda>i. ing_recipe_id i \<noteq> rid) (ingredients w),
                  steps := filter (\<lambda>s. step_recipe_id s \<noteq> rid) (steps w),
                  recipe_tags := filter (\<lambda>(r', tg). r' \<noteq> rid) (recipe_tags w),
                  favorites := filter (\<lambda>(uid, r'). r' \<noteq> rid) (favorites w),
                  recipes := filter (\<lambda>x. recipe_id x \<noteq> recipe_id r) (recipes w)\<rparr>)))"

section \<open>An instance of the libraries and sample data\<close>

text \<open>
  To run the handlers on concrete requests, the libraries are instantiated with a
  toy image library: a picture is its width, its height and the names of the
  operations applied to it, the decoder knows two files, and a crop box whose right
  or lower edge lies before its left or upper edge raises. The sample requests hold
  ASCII strings, on which \<open>str.strip()\<close> removes the characters 9 to 13, 28 to 31 and
  the space, and the toy \<open>float()\<close> reads unsigned decimal digits, \<open>nan\<close> and \<open>inf\<close>.
\<close>

datatype picture = Picture int int "string list"

definition is_space :: "char \<Rightarrow> bool" where
  "is_space c = ((of_char c :: nat) \<in> {9, 10, 11, 12, 13, 28, 29, 30, 31, 32})"

definition ascii_strip :: "string \<Rightarrow> string" where
  "ascii_strip s = rev (dropWhile is_space (rev (dropWhile is_space s)))"

definition demo_float :: "string \<Rightarrow> pyfloat option" where
  "demo_float s =
     (if s = ''nan'' then Some NaN
      else if s = ''inf'' then Some Infinity
      else if s \<noteq> [] \<and> list_all (\<lambda>c. 48 \<le> (of_char c :: nat) \<and> (of_char c :: nat) \<le> 57) s
      then Some (Finite (of_nat (foldl (\<lambda>a c. 10 * a + (of_char c - 48)) 0 s)))
      else None)"

definition demo_open :: "bytes \<Rightarrow> picture raises" where
  "demo_open d =
     (if d = ''JPEG 3200x1800'' then Inr (Picture 3200 1800 [])
      else if d = ''JPEG 800x600'' then Inr (Picture 800 600 [])
      else Inl ''cannot identify image file'')"

definition demo_exif_transpose :: "picture \<Rightarrow> picture raises" where
  "demo_exif_transpose p = (case p of Picture w h ops \<Rightarrow> Inr (Picture w h (ops @ [''exif''])))"

definition demo_thumbnail :: "int \<times> int \<Rightarrow> picture \<Rightarrow> picture raises" where
  "demo_thumbnail sz p =
     (case (sz, p) of
        ((mw, mh), Picture w h ops) \<Rightarrow>
          if w \<le> mw \<and> h \<le> mh then Inr (Picture w h (ops @ [''thumbnail'']))
          else if h * mw \<le> w * mh
          then Inr (Picture mw (max 1 (h * mw div w)) (ops @ [''thumbnail'']))
          else Inr (Picture (max 1 (w * mh div h)) mh (ops @ [''thumbnail''])))"

definition demo_width :: "picture \<Rightarrow> int" where
  "demo_width p = (case p of Picture w h ops \<Rightarrow> w)"

definition demo_height :: "picture \<Rightarrow> int" where
  "demo_height p = (case p of Picture w h ops \<Rightarrow> h)"

definition demo_crop :: "int \<times> int \<times> int \<times> int \<Rightarrow> picture \<Rightarrow> picture raises" where
  "demo_crop box p =
     (case (box, p) of
        ((l, t, r, b), Picture w h ops) \<Rightarrow>
          if r < l \<or> b < t then Inl ''Coordinate right is less than left''
          else Inr (Picture (r - l) (b - t) (ops @ [''crop''])))"

definition demo_resize :: "int \<times> int \<Rightarrow> picture \<Rightarrow> picture raises" where
  "demo_resize sz p =
     (case (sz, p) of ((w, h), Picture _ _ ops) \<Rightarrow> Inr (Picture w h (ops @ [''resize''])))"

definition demo_save :: "nat \<Rightarrow> picture \<Rightarrow> bytes raises" where
  "demo_save q p =
     (case p of
        Picture w h ops \<Rightarrow>
          Inr (''WEBP '' @ str_int w @ ''x'' @ str_int h @ concat (map (\<lambda>s. CHR '' '' # s) ops)))"

definition demo_env :: "picture env" where
  "demo_env =
     \<lparr>str_strip = ascii_strip,
      str_to_float = demo_float,
      pil_open = demo_open,
      pil_exif_transpose = demo_exif_transpose,
      pil_thumbnail = demo_thumbnail,
      pil_width = demo_width,
      pil_height = demo_height,
      pil_crop = demo_crop,
      pil_resize = demo_resize,
      pil_save_webp = demo_save,
      uuid4_hex = (\<lambda>n. ''f'' @ str_nat n),
      token_urlsafe = (\<lambda>n. ''t'' @ str_nat n),
      pwd_hash = (\<lambda>p. Some (''h:'' @ p)),
      pwd_verify = (\<lambda>p h. Some (h = ''h:'' @ p))\<rparr>"

definition alice :: user where
  "alice = \<lparr>user_id = 1, email = ''a@x'', password_hash = ''h:pw''\<rparr>"

text \<open>A database with one user and nothing else.\<close>

definition world0 :: world where
  "world0 =
     \<lparr>users = [alice], recipes = [], recipe_seq = 0, ingredients = [], steps = [], tags = [],
      recipe_tags = [], favorites = [], media = Map.empty, entropy = 0, stdout = []\<rparr>"

text \<open>Alice's session, and a session nobody is logged in to; the token of both is \<open>tok\<close>.\<close>

definition sess_alice :: session where
  "sess_alice = \<lparr>sess_user_id = Some 1, sess_csrf_token = Some ''tok''\<rparr>"

definition sess_anon :: session where
  "sess_anon = \<lparr>sess_user_id = None, sess_csrf_token = Some ''tok''\<rparr>"

text \<open>The smallest create and edit forms with a given title and token.\<close>

definition create_form0 :: "string \<Rightarrow> string \<Rightarrow> create_form" where
  "create_form0 t token =
     \<lparr>cf_title = t, cf_description = [], cf_image = None,
      cf_ingredients_name = [], cf_ingredients_amount = [], cf_ingredients_unit = [],
      cf_steps_body = [], cf_steps_image = [],
      cf_steps_crop_x = None, cf_steps_crop_y = None, cf_steps_crop_w = None,
      cf_steps_crop_h = None,
      cf_tags_csv = [], cf_crop_x = None, cf_crop_y = None, cf_crop_w = None, cf_crop_h = None,
      cf_csrf_token = token\<rparr>"

definition update_form0 :: "string \<Rightarrow> string \<Rightarrow> update_form" where
  "update_form0 t token =
     \<lparr>uf_title = t, uf_csrf_token = token, uf_description = [], uf_image = None,
      uf_ingredients_name = None, uf_ingredients_amount = None,
      uf_steps_body = None, uf_steps_existing_image = None, uf_steps_image = None,
      uf_tags_csv = [], uf_crop_x = None, uf_crop_y = None, uf_crop_w = None, uf_crop_h = None\<rparr>"

text \<open>An upload the toy decoder reads, and one it does not.\<close>

definition photo :: upload where
  "photo = \<lparr>filename = Some ''a.jpg'', data = ''JPEG 3200x1800''\<rparr>"


text \<open>A database where Alice has one recipe, with one ingredient that has a unit.\<close>

definition omelette :: recipe where
  "omelette =
     \<lparr>recipe_id = 1, title = ''Omelette'', description = [], main_image = None,
      author_id = Some 1, view_count = 0\<rparr>"

definition world1 :: world where
  "world1 =
     world0\<lparr>recipes := [omelette], recipe_seq := 1,
            ingredients := [\<lparr>ing_id = 1, ing_recipe_id = 1, ing_name = ''egg'',
                             amount = Some ''2'', unit = Some ''pcs'', ing_order_no = 0\<rparr>]\<rparr>"

section \<open>What a create request is expected to store\<close>

text \<open>
  Stated from the specification, to compare with what \<open>recipe_create\<close> stores: the
  submitted ingredients whose name is not blank (\<open>str.strip()\<close> leaves something), and
  the submitted steps that have a body or an uploaded image, each with its position
  in the submitted list.
\<close>

definition kept_ingredients :: "'img env \<Rightarrow> string list \<Rightarrow> (string \<times> int) list" where
  "kept_ingredients env names =
     map (\<lambda>(i, n). (str_strip env n, int i))
       (filter (\<lambda>(i, n). str_strip env n \<noteq> []) (enumerate 0 names))"

definition step_body_at :: "'img env \<Rightarrow> create_form \<Rightarrow> nat \<Rightarrow> string" where
  "step_body_at env f i =
     str_strip env (if i < length (cf_steps_body f) then cf_steps_body f ! i else [])"

definition step_has_upload :: "create_form \<Rightarrow> nat \<Rightarrow> bool" where
  "step_has_upload f i =
     (i < length (cf_steps_image f) \<and> truthy (filename (cf_steps_image f ! i)))"

definition kept_steps :: "'img env \<Rightarrow> create_form \<Rightarrow> (string \<times> int) list" where
  "kept_steps env f =
     map (\<lambda>i. (step_body_at env f i, int i))
       (filter (\<lambda>i. step_body_at env f i \<noteq> [] \<or> step_has_upload f i)
          [0..<max (length (cf_steps_body f)) (length (cf_steps_image f))])"

text \<open>No ingredient or step row refers to the id the next recipe gets.\<close>

definition next_id_unused :: "world \<Rightarrow> bool" where
  "next_id_unused w =
     (list_all (\<lambda>i. ing_recipe_id i \<noteq> next_recipe_id w) (ingredients w) \<and>
      list_all (\<lambda>s. step_recipe_id s \<noteq> next_recipe_id w) (steps w))"

text \<open>
  Every recipe id in the recipe, ingredient and step tables has been issued: it is at
  most the counter of the recipe table. This holds in a database without recipes,
  every handler keeps it, and it implies \<open>next_id_unused\<close>.
\<close>

definition ids_issued :: "world \<Rightarrow> bool" where
  "ids_issued w =
     (list_all (\<lambda>r. recipe_id r \<le> recipe_seq w) (recipes w) \<and>
      list_all (\<lambda>i. ing_recipe_id i \<le> recipe_seq w) (ingredients w) \<and>
      list_all (\<lambda>s. step_recipe_id s \<le> recipe_seq w) (steps w))"

text \<open>A create form with two ingredients and two steps, none of them blank.\<close>

definition omelette_form :: create_form where
  "omelette_form =
     (create_form0 ''Omelette'' ''tok'')
       \<lparr>cf_ingredients_name := [''egg'', '' salt ''],
        cf_ingredients_amount := [''2'', ''1''],
        cf_ingredients_unit := [''pcs'', ''pinch''],
        cf_steps_body := [''beat eggs'', ''fry'']\<rparr>"

section \<open>Anti-forgery token\<close>

declare str_nat.simps [simp del]

lemma verify_csrf_rejects:
  assumes "token = [] \<or> sess_csrf_token sess \<noteq> Some token"
  shows "\<exists>e. verify_csrf sess token = Some e \<and>
           (list_all is_ascii token \<and> (\<forall>t. sess_csrf_token sess = Some t \<longrightarrow> list_all is_ascii t)
              \<longrightarrow> e = HttpError 400 ''Invalid CSRF token'')"
  using assms
  by (auto simp: verify_csrf_def compare_digest_def split: option.splits)

lemma verify_csrf_accepts:
  assumes "sess_csrf_token sess = Some token" and "token \<noteq> []" and "list_all is_ascii token"
  shows "verify_csrf sess token = None"
  using assms by (simp add: verify_csrf_def compare_digest_def)

lemma alice_logged_in: "get_current_user sess_alice world0 = Some alice"
  by (simp add: get_current_user_def sess_alice_def world0_def alice_def)

lemma anon_not_logged_in: "get_current_user sess_anon w = None"
  by (simp add: get_current_user_def sess_anon_def)

lemma alice_logged_in_world1: "get_current_user sess_alice world1 = Some alice"
  by (simp add: get_current_user_def sess_alice_def world1_def world0_def alice_def)

lemma alice_token_ok: "verify_csrf sess_alice ''tok'' = None"
  by (rule verify_csrf_accepts) (simp_all add: sess_alice_def is_ascii_def)

text \<open>
  C2, as the claim states it, fails: POST /recipes/1/favorite with the wrong token from a
  session without user is answered by the redirect to the login page, not by the
  error 400.
\<close>

theorem csrf_400_counterexample:
  "sess_csrf_token sess_anon \<noteq> Some ''bad'' \<and>
   favorite_recipe 1 ''bad'' sess_anon world0 = (Redirect ''/login'' 303, sess_anon, world0) \<and>
   Redirect ''/login'' 303 \<noteq> HttpError 400 ''Invalid CSRF token''"
  by (simp add: favorite_recipe_def anon_not_logged_in) (simp add: sess_anon_def)

text \<open>
  C2, amended: on every state-mutating route a request whose token is empty or is not
  the session's token leaves the session, the database and the stored files as they
  were. Signup, login, logout and delete answer with the error of \<open>verify_csrf\<close>;
  create, edit, favorite and unfavorite look for the user first and answer an
  anonymous session with the redirect to /login, a logged-in one with the same
  error. That error is the 400 whenever the supplied token and the session's token
  are ASCII.
\<close>

theorem csrf_rejected_before_write:
  assumes bad: "token = [] \<or> sess_csrf_token sess \<noteq> Some token"
    and cf: "cf_csrf_token cf = token"
    and uf: "uf_csrf_token uf = token"
  shows "\<exists>e. (list_all is_ascii token \<and>
               (\<forall>t. sess_csrf_token sess = Some t \<longrightarrow> list_all is_ascii t)
                \<longrightarrow> e = HttpError 400 ''Invalid CSRF token'')
            \<and> signup env em pw token sess w = (e, sess, w)
            \<and> login env em pw token sess w = (e, sess, w)
            \<and> logout token sess w = (e, sess, w)
            \<and> recipe_delete rid token sess w = (e, sess, w)
            \<and> recipe_create env cf sess w =
                (if get_current_user sess w = None then Redirect ''/login'' 303 else e, sess, w)
            \<and> recipe_update env rid uf sess w =
                (if get_current_user sess w = None then Redirect ''/login'' 303 else e, sess, w)
            \<and> favorite_recipe rid token sess w =
                (if get_current_user sess w = None then Redirect ''/login'' 303 else e, sess, w)
            \<and> unfavorite_recipe rid token sess w =
                (if get_current_user sess w = None then Redirect ''/login'' 303 else e, sess, w)"
proof -
  from verify_csrf_rejects [OF bad] obtain e where
    v: "verify_csrf sess token = Some e"
    and e: "list_all is_ascii token \<and>
             (\<forall>t. sess_csrf_token sess = Some t \<longrightarrow> list_all is_ascii t)
              \<longrightarrow> e = HttpError 400 ''Invalid CSRF token''"
    by blast
  have 1: "signup env em pw token sess w = (e, sess, w)"
    by (simp add: signup_def v)
  have 2: "login env em pw token sess w = (e, sess, w)"
    by (simp add: login_def v)
  have 3: "logout token sess w = (e, sess, w)"
    by (simp add: logout_def v)
  have 4: "recipe_delete rid token sess w = (e, sess, w)"
    by (simp add: recipe_delete_def v)
  have 5: "recipe_create env cf sess w =
             (if get_current_user sess w = None then Redirect ''/login'' 303 else e, sess, w)"
    by (simp add: recipe_create_def v cf split: option.splits)
  have 6: "recipe_update env rid uf sess w =
             (if get_current_user sess w = None then Redirect ''/login'' 303 else e, sess, w)"
    by (simp add: recipe_update_def v uf split: option.splits)
  have 7: "favorite_recipe rid token sess w =
             (if get_current_user sess w = None then Redirect ''/login'' 303 else e, sess, w)"
    by (simp add: favorite_recipe_def v split: option.splits)
  have 8: "unfavorite_recipe rid token sess w =
             (if get_current_user sess w = None then Redirect ''/login'' 303 else e, sess, w)"
    by (simp add: unfavorite_recipe_def v split: option.splits)
  from e 1 2 3 4 5 6 7 8 show ?thesis by blast
qed

theorem csrf_rejected_before_write_witness:
  "(''bad'' = [] \<or> sess_csrf_token sess_alice \<noteq> Some ''bad'') \<and>
   cf_csrf_token (create_form0 ''Omelette'' ''bad'') = ''bad'' \<and>
   uf_csrf_token (update_form0 ''Omelette'' ''bad'') = ''bad'' \<and>
   signup demo_env ''b@x'' ''pw'' ''bad'' sess_alice world0 =
     (HttpError 400 ''Invalid CSRF token'', sess_alice, world0) \<and>
   login demo_env ''a@x'' ''pw'' ''bad'' sess_alice world0 =
     (HttpError 400 ''Invalid CSRF token'', sess_alice, world0) \<and>
   logout ''bad'' sess_alice world0 = (HttpError 400 ''Invalid CSRF token'', sess_alice, world0) \<and>
   recipe_delete 1 ''bad'' sess_alice world0 =
     (HttpError 400 ''Invalid CSRF token'', sess_alice, world0) \<and>
   recipe_create demo_env (create_form0 ''Omelette'' ''bad'') sess_alice world0 =
     (HttpError 400 ''Invalid CSRF token'', sess_alice, world0) \<and>
   recipe_update demo_env 1 (update_form0 ''Omelette'' ''bad'') sess_alice world0 =
     (HttpError 400 ''Invalid CSRF token'', sess_alice, world0) \<and>
   favorite_recipe 1 ''bad'' sess_alice world0 =
     (HttpError 400 ''Invalid CSRF token'', sess_alice, world0) \<and>
   unfavorite_recipe 1 ''bad'' sess_alice world0 =
     (HttpError 400 ''Invalid CSRF token'', sess_alice, world0)"
proof -
  have h: "''bad'' = [] \<or> sess_csrf_token sess_alice \<noteq> Some ''bad''"
    by (simp add: sess_alice_def)
  have c: "cf_csrf_token (create_form0 ''Omelette'' ''bad'') = ''bad''"
    by (simp add: create_form0_def)
  have u: "uf_csrf_token (update_form0 ''Omelette'' ''bad'') = ''bad''"
    by (simp add: update_form0_def)
  have a: "list_all is_ascii ''bad'' \<and>
           (\<forall>t. sess_csrf_token sess_alice = Some t \<longrightarrow> list_all is_ascii t)"
    by (simp add: sess_alice_def is_ascii_def)
  from csrf_rejected_before_write [OF h c u, of demo_env "''b@x''" "''pw''" world0 1]
  obtain e where
    e: "list_all is_ascii ''bad'' \<and>
        (\<forall>t. sess_csrf_token sess_alice = Some t \<longrightarrow> list_all is_ascii t)
          \<longrightarrow> e = HttpError 400 ''Invalid CSRF token''"
    and r: "signup demo_env ''b@x'' ''pw'' ''bad'' sess_alice world0 = (e, sess_alice, world0)"
      "logout ''bad'' sess_alice world0 = (e, sess_alice, world0)"
      "recipe_delete 1 ''bad'' sess_alice world0 = (e, sess_alice, world0)"
      "recipe_create demo_env (create_form0 ''Omelette'' ''bad'') sess_alice world0 =
         (if get_current_user sess_alice world0 = None then Redirect ''/login'' 303 else e,
          sess_alice, world0)"
      "recipe_update demo_env 1 (update_form0 ''Omelette'' ''bad'') sess_alice world0 =
         (if get_current_user sess_alice world0 = None then Redirect ''/login'' 303 else e,
          sess_alice, world0)"
      "favorite_recipe 1 ''bad'' sess_alice world0 =
         (if get_current_user sess_alice world0 = None then Redirect ''/login'' 303 else e,
          sess_alice, world0)"
      "unfavorite_recipe 1 ''bad'' sess_alice world0 =
         (if get_current_user sess_alice world0 = None then Redirect ''/login'' 303 else e,
          sess_alice, world0)"
    by blast
  from csrf_rejected_before_write [OF h c u, of demo_env "''a@x''" "''pw''" world0 1]
  obtain e' where
    e': "list_all is_ascii ''bad'' \<and>
        (\<forall>t. sess_csrf_token sess_alice = Some t \<longrightarrow> list_all is_ascii t)
          \<longrightarrow> e' = HttpError 400 ''Invalid CSRF token''"
    and l: "login demo_env ''a@x'' ''pw'' ''bad'' sess_alice world0 = (e', sess_alice, world0)"
    by blast
  from e a have "e = HttpError 400 ''Invalid CSRF token''" by blast
  moreover from e' a have "e' = HttpError 400 ''Invalid CSRF token''" by blast
  ultimately show ?thesis
    using h c u r l by (simp add: alice_logged_in)
qed

section \<open>Login required\<close>

text \<open>
  C8: a request to a route that requires authentication, from a session without user
  identifier, is answered by a redirect to the login page. GET /favorites answers such
  a session with the error 401 raised by \<open>_require_login\<close>.
\<close>

theorem favorites_page_no_user_401:
  "fst (favorites_page env ord \<lparr>sess_user_id = None, sess_csrf_token = tok\<rparr> w)
     = HttpError 401 ''Login required''"
  by (simp add: favorites_page_def ensure_csrf_def require_login_def get_current_user_def
        split: prod.splits)

section \<open>Favorites\<close>

text \<open>
  C10, as the claim states it, fails: for the recipe id 2^63, which is no SQLite
  INTEGER, the query for the Favorite row raises OverflowError; Alice's request with
  a valid token is answered with the error 500, and no row is added.
\<close>

theorem favorite_recipe_overflow_counterexample:
  "get_current_user sess_alice world0 = Some alice \<and>
   verify_csrf sess_alice ''tok'' = None \<and>
   favorite_recipe 9223372036854775808 ''tok'' sess_alice world0 =
     (ServerError, sess_alice, world0)"
  by (simp add: favorite_recipe_def alice_logged_in alice_token_ok sqlite_integer_def)

text \<open>
  C10, amended: for a logged-in user, a valid token and any recipe id that is an
  SQLite INTEGER (a signed 64-bit value), POST /recipes/{rid}/favorite adds the row
  (user_id, rid) to the favorites unless it is there, and redirects with 303 to the
  recipe's page; no recipe is looked up, so the row is added for an id without recipe
  as well.
\<close>

theorem favorite_recipe_inserts:
  assumes "get_current_user sess w = Some u"
    and "sess_csrf_token sess = Some token" and "token \<noteq> []" and "list_all is_ascii token"
    and "sqlite_integer rid"
  shows "favorite_recipe rid token sess w =
           (Redirect (''/recipes/'' @ str_int rid) 303, sess,
            if (user_id u, rid) \<in> set (favorites w) then w
            else w\<lparr>favorites := favorites w @ [(user_id u, rid)]\<rparr>)"
proof -
  have v: "verify_csrf sess token = None"
    using assms(2-4) by (rule verify_csrf_accepts)
  have f: "(find (\<lambda>(uid, r). uid = user_id u \<and> r = rid) (favorites w) = None)
             = ((user_id u, rid) \<notin> set (favorites w))"
    by (auto simp: find_None_iff)
  show ?thesis
    using assms(1,5) v f by (simp add: favorite_recipe_def)
qed

theorem favorite_recipe_inserts_witness:
  "get_current_user sess_alice world0 = Some alice \<and>
   sess_csrf_token sess_alice = Some ''tok'' \<and> ''tok'' \<noteq> [] \<and> list_all is_ascii ''tok'' \<and>
   sqlite_integer 7 \<and>
   get_recipe world0 7 = None \<and>
   favorite_recipe 7 ''tok'' sess_alice world0 =
     (Redirect ''/recipes/7'' 303, sess_alice, world0\<lparr>favorites := [(1, 7)]\<rparr>)"
proof -
  have t: "sess_csrf_token sess_alice = Some ''tok''" by (simp add: sess_alice_def)
  have n: "''tok'' \<noteq> []" by simp
  have a: "list_all is_ascii ''tok''" by (simp add: is_ascii_def)
  have i: "sqlite_integer 7" by (simp add: sqlite_integer_def)
  have s: "str_int 7 = ''7''" by code_simp
  have g: "get_recipe world0 7 = None" by (simp add: get_recipe_def world0_def)
  have f: "favorites world0 = []" "user_id alice = 1" by (simp_all add: world0_def alice_def)
  show ?thesis
    using favorite_recipe_inserts [OF alice_logged_in t n a i] alice_logged_in t a i g s f
    by simp
qed

section \<open>The stored path of the main image\<close>

text \<open>
  C1: after a create or an edit that uploads a main image, the stored path is
  /media/<random-hex>.<ext> with nothing after the extension. Both handlers store the
  path with a \<open>+\<close> after the extension: here Alice creates a recipe with a photo, and
  replaces the photo of her recipe, and both rows hold \<open>/media/f0.webp+\<close>.
\<close>

theorem main_image_path_plus:
  "fst (recipe_create demo_env ((create_form0 ''Omelette'' ''tok'')\<lparr>cf_image := Some photo\<rparr>)
          sess_alice world0)
     = RecipeDetailPage
         \<lparr>recipe_id = 1, title = ''Omelette'', description = [],
          main_image = Some ''/media/f0.webp+'', author_id = Some 1, view_count = 0\<rparr>
         [] [] [] (Some alice) \<and>
   map main_image (recipes (snd (snd
       (recipe_update demo_env 1 ((update_form0 ''Omelette'' ''tok'')\<lparr>uf_image := Some photo\<rparr>)
          sess_alice world1))))
     = [Some ''/media/f0.webp+'']"
  by code_simp

section \<open>Crop rectangles\<close>

text \<open>
  C4: the step images go through the same operations as the main image, and a crop
  rectangle sent for a step image in the create flow is applied to it. One request
  sends the same photo and the same rectangle for the main image and for the first
  step: the main image's file is cropped and resized to 1200x675, the step's file is
  the downscaled photo, because \<open>recipe_create\<close> computes the step's rectangle and calls
  \<open>save_step_image\<close> without it.
\<close>

theorem step_crop_ignored:
  "(let w = snd (snd (recipe_create demo_env
       ((create_form0 ''Omelette'' ''tok'')
          \<lparr>cf_image := Some photo,
           cf_crop_x := Some ''100'', cf_crop_y := Some ''50'',
           cf_crop_w := Some ''400'', cf_crop_h := Some ''225'',
           cf_steps_body := [''beat eggs''], cf_steps_image := [photo],
           cf_steps_crop_x := Some [''100''], cf_steps_crop_y := Some [''50''],
           cf_steps_crop_w := Some [''400''], cf_steps_crop_h := Some [''225'']\<rparr>)
       sess_alice world0))
    in (media w ''f0.webp'', media w ''f1.webp''))
   = (Some ''WEBP 1200x675 exif thumbnail crop resize'', Some ''WEBP 1600x900 exif thumbnail'')"
  by code_simp

text \<open>
  C5: the clamping of a fully specified rectangle yields a rectangle inside the image.
  On a 1600x900 image the rectangle x = 2000, y = 0, w = 400, h = 225 is clamped to
  x = 2000 and w = -400: the floor at 1 is applied before w is cut to the width left
  of x, and x is not cut to the width, so the rectangle starts right of the image and
  its width is negative.
\<close>

theorem clamp_leaves_image:
  "clamp_crop 1600 900 2000 0 400 225 = (2000, 0, - 400, 225)"
  by (simp add: clamp_crop_def)

lemma main_image_pipeline_partial:
  assumes "cx = None \<or> cy = None \<or> cw = None \<or> ch = None"
  shows "main_image_pipeline env d cx cy cw ch = main_image_pipeline env d None None None None"
  using assms by (cases cx; cases cy; cases cw; cases ch) (simp_all add: main_image_pipeline_def)

lemma main_image_pipeline_no_crop:
  "main_image_pipeline env d None None None None =
     and_then (pil_open env d) (\<lambda>im0.
     and_then (pil_exif_transpose env im0) (\<lambda>im1.
     and_then (pil_thumbnail env (1600, 1600) im1) (pil_save_webp env 85)))"
  by (simp add: main_image_pipeline_def and_then_def split: sum.splits)

lemma save_main_image_partial:
  assumes "cx = None \<or> cy = None \<or> cw = None \<or> ch = None"
  shows "save_main_image env upl cx cy cw ch w = save_main_image env upl None None None None w"
  unfolding save_main_image_def main_image_pipeline_partial [OF assms] by (rule refl)

lemma crop_tuple_at_partial:
  assumes "crop_value_at env idx xs = None \<or> crop_value_at env idx ys = None \<or>
           crop_value_at env idx ws = None \<or> crop_value_at env idx hs = None"
  shows "crop_tuple_at env idx xs ys ws hs = None"
  using assms by (auto simp: crop_tuple_at_def split: option.splits)

lemma create_steps_main_crop:
  "create_steps env rid
     (f\<lparr>cf_crop_x := x, cf_crop_y := y, cf_crop_w := cw, cf_crop_h := ch\<rparr>) idxs w
   = create_steps env rid f idxs w"
  by (induction idxs arbitrary: w) (simp_all add: Let_def split: prod.splits)

text \<open>
  What does hold: when \<open>_to_float_or_none\<close> gives \<open>None\<close> for one of crop_x, crop_y,
  crop_w, crop_h (the field is absent, empty or refused by \<open>float()\<close>), the create and
  the edit request answer and store the same as with the four fields absent, and the
  file written is the downscaled image.
\<close>

lemma absent_crop_field_is_no_crop:
  assumes partial:
    "to_float_or_none env x = None \<or> to_float_or_none env y = None \<or>
     to_float_or_none env cw = None \<or> to_float_or_none env ch = None"
  shows "recipe_create env
           (cf\<lparr>cf_crop_x := x, cf_crop_y := y, cf_crop_w := cw, cf_crop_h := ch\<rparr>) sess w
         = recipe_create env
             (cf\<lparr>cf_crop_x := None, cf_crop_y := None, cf_crop_w := None, cf_crop_h := None\<rparr>)
             sess w
       \<and> recipe_update env rid
           (uf\<lparr>uf_crop_x := x, uf_crop_y := y, uf_crop_w := cw, uf_crop_h := ch\<rparr>) sess w
         = recipe_update env rid
             (uf\<lparr>uf_crop_x := None, uf_crop_y := None, uf_crop_w := None, uf_crop_h := None\<rparr>)
             sess w
       \<and> main_image_pipeline env d (to_float_or_none env x) (to_float_or_none env y)
           (to_float_or_none env cw) (to_float_or_none env ch)
         = and_then (pil_open env d) (\<lambda>im0.
           and_then (pil_exif_transpose env im0) (\<lambda>im1.
           and_then (pil_thumbnail env (1600, 1600) im1) (pil_save_webp env 85)))"
proof -
  have 1: "recipe_create env
             (cf\<lparr>cf_crop_x := x, cf_crop_y := y, cf_crop_w := cw, cf_crop_h := ch\<rparr>) sess w
           = recipe_create env
               (cf\<lparr>cf_crop_x := None, cf_crop_y := None, cf_crop_w := None, cf_crop_h := None\<rparr>)
               sess w"
    by (simp add: recipe_create_def Let_def to_float_or_none_def [of env None]
          create_steps_main_crop save_main_image_partial [OF partial]
          cong: option.case_cong if_cong)
  have 2: "recipe_update env rid
             (uf\<lparr>uf_crop_x := x, uf_crop_y := y, uf_crop_w := cw, uf_crop_h := ch\<rparr>) sess w
           = recipe_update env rid
               (uf\<lparr>uf_crop_x := None, uf_crop_y := None, uf_crop_w := None, uf_crop_h := None\<rparr>)
               sess w"
    by (simp add: recipe_update_def Let_def to_float_or_none_def [of env None]
          save_main_image_partial [OF partial] cong: option.case_cong if_cong)
  have 3: "main_image_pipeline env d (to_float_or_none env x) (to_float_or_none env y)
             (to_float_or_none env cw) (to_float_or_none env ch)
           = and_then (pil_open env d) (\<lambda>im0.
             and_then (pil_exif_transpose env im0) (\<lambda>im1.
             and_then (pil_thumbnail env (1600, 1600) im1) (pil_save_webp env 85)))"
    by (simp only: main_image_pipeline_partial [OF partial] main_image_pipeline_no_crop)
  from 1 2 3 show ?thesis
    by simp
qed

text \<open>
  C6: when fewer than all four of crop_x, crop_y, crop_w, crop_h are present and parse
  as numbers, the ingest gives what it gives without any crop field, the downscaled
  image. The field \<open>nan\<close> is no number, and \<open>_to_int_or_none\<close> gives \<open>None\<close> for it, but
  \<open>_to_float_or_none\<close> takes it: with crop_x = nan and the three other fields given,
  the main image block finds all four present, \<open>int(cx)\<close> raises inside the \<open>try\<close>, and
  the file keeps the uploaded bytes, where the request without crop fields stores the
  downscaled image. Alice's create request and her edit of recipe 1 both show it.
\<close>

theorem nan_crop_field_keeps_upload:
  "(let c_nan = snd (snd (recipe_create demo_env
       ((create_form0 ''Omelette'' ''tok'')
          \<lparr>cf_image := Some photo,
           cf_crop_x := Some ''nan'', cf_crop_y := Some ''0'',
           cf_crop_w := Some ''400'', cf_crop_h := Some ''225''\<rparr>)
       sess_alice world0));
        c_none = snd (snd (recipe_create demo_env
       ((create_form0 ''Omelette'' ''tok'')\<lparr>cf_image := Some photo\<rparr>)
       sess_alice world0));
        u_nan = snd (snd (recipe_update demo_env 1
       ((update_form0 ''Omelette'' ''tok'')
          \<lparr>uf_image := Some photo,
           uf_crop_x := Some ''nan'', uf_crop_y := Some ''0'',
           uf_crop_w := Some ''400'', uf_crop_h := Some ''225''\<rparr>)
       sess_alice world1));
        u_none = snd (snd (recipe_update demo_env 1
       ((update_form0 ''Omelette'' ''tok'')\<lparr>uf_image := Some photo\<rparr>)
       sess_alice world1))
    in (to_int_or_none demo_env (Some ''nan''),
        media c_nan ''f0.webp'', media c_none ''f0.webp'',
        media u_nan ''f0.webp'', media u_none ''f0.webp''))
   = (None,
      Some ''JPEG 3200x1800'', Some ''WEBP 1600x900 exif thumbnail'',
      Some ''JPEG 3200x1800'', Some ''WEBP 1600x900 exif thumbnail'')"
  by code_simp

section \<open>What the loops leave unchanged\<close>

lemma save_main_image_frame [simp]:
  "users (snd (save_main_image env upl cx cy cw ch w)) = users w \<and>
   recipes (snd (save_main_image env upl cx cy cw ch w)) = recipes w \<and>
   recipe_seq (snd (save_main_image env upl cx cy cw ch w)) = recipe_seq w \<and>
   ingredients (snd (save_main_image env upl cx cy cw ch w)) = ingredients w \<and>
   steps (snd (save_main_image env upl cx cy cw ch w)) = steps w \<and>
   tags (snd (save_main_image env upl cx cy cw ch w)) = tags w \<and>
   recipe_tags (snd (save_main_image env upl cx cy cw ch w)) = recipe_tags w \<and>
   favorites (snd (save_main_image env upl cx cy cw ch w)) = favorites w"
  by (simp add: save_main_image_def Let_def split: option.splits sum.splits)

lemma save_step_image_frame [simp]:
  "users (snd (save_step_image env upl cx cy cw ch w)) = users w \<and>
   recipes (snd (save_step_image env upl cx cy cw ch w)) = recipes w \<and>
   recipe_seq (snd (save_step_image env upl cx cy cw ch w)) = recipe_seq w \<and>
   ingredients (snd (save_step_image env upl cx cy cw ch w)) = ingredients w \<and>
   steps (snd (save_step_image env upl cx cy cw ch w)) = steps w \<and>
   tags (snd (save_step_image env upl cx cy cw ch w)) = tags w \<and>
   recipe_tags (snd (save_step_image env upl cx cy cw ch w)) = recipe_tags w \<and>
   favorites (snd (save_step_image env upl cx cy cw ch w)) = favorites w"
  by (simp add: save_step_image_def Let_def split: option.splits sum.splits)

lemma save_step_image_path:
  "truthy (filename up) \<Longrightarrow>
   fst (save_step_image env (Some up) cx cy cw ch w)
     = Some (''/media/'' @ uuid4_hex env (entropy w) @ ''.webp'')"
  by (simp add: save_step_image_def Let_def)

lemma create_ingredients_frame [simp]:
  "users (create_ingredients env rid am un idx names w) = users w \<and>
   recipes (create_ingredients env rid am un idx names w) = recipes w \<and>
   recipe_seq (create_ingredients env rid am un idx names w) = recipe_seq w \<and>
   steps (create_ingredients env rid am un idx names w) = steps w \<and>
   tags (create_ingredients env rid am un idx names w) = tags w \<and>
   recipe_tags (create_ingredients env rid am un idx names w) = recipe_tags w \<and>
   favorites (create_ingredients env rid am un idx names w) = favorites w"
  by (induction names arbitrary: idx w) (simp_all add: Let_def add_ingredient_def)

lemma update_ingredients_frame [simp]:
  "users (update_ingredients env rid am idx names w) = users w \<and>
   recipes (update_ingredients env rid am idx names w) = recipes w \<and>
   recipe_seq (update_ingredients env rid am idx names w) = recipe_seq w \<and>
   steps (update_ingredients env rid am idx names w) = steps w \<and>
   tags (update_ingredients env rid am idx names w) = tags w \<and>
   recipe_tags (update_ingredients env rid am idx names w) = recipe_tags w \<and>
   favorites (update_ingredients env rid am idx names w) = favorites w"
  by (induction names arbitrary: idx w) (simp_all add: Let_def add_ingredient_def)

lemma create_steps_frame [simp]:
  "users (create_steps env rid f idxs w) = users w \<and>
   recipes (create_steps env rid f idxs w) = recipes w \<and>
   recipe_seq (create_steps env rid f idxs w) = recipe_seq w \<and>
   ingredients (create_steps env rid f idxs w) = ingredients w \<and>
   tags (create_steps env rid f idxs w) = tags w \<and>
   recipe_tags (create_steps env rid f idxs w) = recipe_tags w \<and>
   favorites (create_steps env rid f idxs w) = favorites w"
  by (induction idxs arbitrary: w) (simp_all add: Let_def case_prod_beta add_step_def)

lemma update_steps_frame [simp]:
  "users (update_steps env rid bodies olds imgs idxs w) = users w \<and>
   recipes (update_steps env rid bodies olds imgs idxs w) = recipes w \<and>
   recipe_seq (update_steps env rid bodies olds imgs idxs w) = recipe_seq w \<and>
   ingredients (update_steps env rid bodies olds imgs idxs w) = ingredients w \<and>
   tags (update_steps env rid bodies olds imgs idxs w) = tags w \<and>
   recipe_tags (update_steps env rid bodies olds imgs idxs w) = recipe_tags w \<and>
   favorites (update_steps env rid bodies olds imgs idxs w) = favorites w"
  by (induction idxs arbitrary: w) (simp_all add: Let_def case_prod_beta add_step_def)

lemma attach_tags_frame [simp]:
  "users (attach_tags env rid raws w) = users w \<and>
   recipes (attach_tags env rid raws w) = recipes w \<and>
   recipe_seq (attach_tags env rid raws w) = recipe_seq w \<and>
   ingredients (attach_tags env rid raws w) = ingredients w \<and>
   steps (attach_tags env rid raws w) = steps w \<and>
   favorites (attach_tags env rid raws w) = favorites w \<and>
   media (attach_tags env rid raws w) = media w \<and>
   entropy (attach_tags env rid raws w) = entropy w \<and>
   stdout (attach_tags env rid raws w) = stdout w"
  by (induction raws arbitrary: w)
     (simp_all add: Let_def case_prod_beta add_tag_def split: option.splits)

section \<open>Ingredients after an edit\<close>

lemma update_ingredients_units:
  assumes "\<forall>i\<in>set (ingredients w). ing_recipe_id i = rid \<longrightarrow> unit i = None"
  shows "\<forall>i\<in>set (ingredients (update_ingredients env rid am idx names w)).
           ing_recipe_id i = rid \<longrightarrow> unit i = None"
  using assms
proof (induction names arbitrary: idx w)
  case Nil
  then show ?case by simp
next
  case (Cons nm names)
  show ?case
  proof (cases "str_strip env nm = []")
    case True
    with Cons.IH [OF Cons.prems, of "Suc idx"] show ?thesis by simp
  next
    case False
    let ?w = "add_ingredient w rid (str_strip env nm) (map_option (str_strip env) (or_none (at_or_none am idx)))
                None (int idx)"
    have "\<forall>i\<in>set (ingredients ?w). ing_recipe_id i = rid \<longrightarrow> unit i = None"
      using Cons.prems by (simp add: add_ingredient_def)
    from Cons.IH [OF this, of "Suc idx"] False show ?thesis
      by (simp add: Let_def)
  qed
qed

text \<open>
  C9: after a successful edit of a recipe every Ingredient row of that recipe has no
  unit, whatever units its rows had before: the rows are deleted and created again with
  \<open>unit=None\<close>, and the form of the edit (\<open>update_form\<close>) has no unit field.
\<close>

theorem edit_resets_units:
  assumes ok: "fst (recipe_update env rid f sess w) = Redirect (''/recipes/'' @ str_int rid) 303"
  shows "\<forall>i\<in>set (ingredients (snd (snd (recipe_update env rid f sess w)))).
           ing_recipe_id i = rid \<longrightarrow> unit i = None"
proof (cases "get_current_user sess w")
  case None
  with ok show ?thesis by (simp add: recipe_update_def)
next
  case (Some u)
  note u = this
  show ?thesis
  proof (cases "verify_csrf sess (uf_csrf_token f)")
    case (Some e)
    with ok u have "e = Redirect (''/recipes/'' @ str_int rid) 303"
      by (simp add: recipe_update_def)
    with Some show ?thesis
      by (auto simp: verify_csrf_def split: option.splits if_splits)
  next
    case None
    note v = this
    show ?thesis
    proof (cases "sqlite_integer rid")
      case False
      with ok u v show ?thesis by (simp add: recipe_update_def Let_def)
    next
      case True
      note s = this
      show ?thesis
      proof (cases "get_recipe w rid")
        case None
        with ok u v s show ?thesis by (simp add: recipe_update_def Let_def)
      next
        case (Some r)
        show ?thesis
        proof (cases "author_id r = Some (user_id u)")
          case False
          with ok u v s Some show ?thesis by (simp add: recipe_update_def Let_def)
        next
          case True
          show ?thesis
            using u v s Some True
            apply (simp add: recipe_update_def Let_def case_prod_beta)
            apply (rule update_ingredients_units)
            apply simp
            done
        qed
      qed
    qed
  qed
qed

theorem edit_resets_units_witness:
  "fst (recipe_update demo_env 1
          ((update_form0 ''Omelette'' ''tok'')
             \<lparr>uf_ingredients_name := Some [''egg'', ''salt''],
              uf_ingredients_amount := Some [''3'']\<rparr>) sess_alice world1)
     = Redirect (''/recipes/'' @ str_int 1) 303 \<and>
   map unit (ingredients world1) = [Some ''pcs''] \<and>
   map (\<lambda>i. (ing_recipe_id i, ing_name i, amount i, unit i))
     (ingredients (snd (snd (recipe_update demo_env 1
          ((update_form0 ''Omelette'' ''tok'')
             \<lparr>uf_ingredients_name := Some [''egg'', ''salt''],
              uf_ingredients_amount := Some [''3'']\<rparr>) sess_alice world1))))
     = [(1, ''egg'', Some ''3'', None), (1, ''salt'', None, None)]"
proof -
  have r: "fst (recipe_update demo_env 1
          ((update_form0 ''Omelette'' ''tok'')
             \<lparr>uf_ingredients_name := Some [''egg'', ''salt''],
              uf_ingredients_amount := Some [''3'']\<rparr>) sess_alice world1)
     = Redirect (''/recipes/'' @ str_int 1) 303"
    by code_simp
  have b: "map unit (ingredients world1) = [Some ''pcs'']"
    by (simp add: world1_def)
  have a: "map (\<lambda>i. (ing_recipe_id i, ing_name i, amount i, unit i))
     (ingredients (snd (snd (recipe_update demo_env 1
          ((update_form0 ''Omelette'' ''tok'')
             \<lparr>uf_ingredients_name := Some [''egg'', ''salt''],
              uf_ingredients_amount := Some [''3'']\<rparr>) sess_alice world1))))
     = [(1, ''egg'', Some ''3'', None), (1, ''salt'', None, None)]"
    by code_simp
  from edit_resets_units [OF r] r b a show ?thesis by simp
qed

section \<open>Uploads that do not decode\<close>

lemma recipe_create_success:
  assumes "get_current_user sess w = Some u" and "verify_csrf sess (cf_csrf_token f) = None"
    and "sqlite_integer (next_recipe_id w)"
  shows "recipe_create env f sess w =
     (let sm = save_main_image env (cf_image f) (to_float_or_none env (cf_crop_x f))
                 (to_float_or_none env (cf_crop_y f)) (to_float_or_none env (cf_crop_w f))
                 (to_float_or_none env (cf_crop_h f)) w;
          r = \<lparr>recipe_id = next_recipe_id w, title = cf_title f, description = cf_description f,
               main_image = fst sm, author_id = Some (user_id u), view_count = 0\<rparr>;
          w2 = (snd sm)\<lparr>recipes := recipes w @ [r], recipe_seq := next_recipe_id w\<rparr>;
          w5 = attach_tags env (next_recipe_id w) (split_on CHR '','' (cf_tags_csv f))
                 (create_steps env (next_recipe_id w) f
                    [0..<max (length (cf_steps_body f)) (length (cf_steps_image f))]
                    (create_ingredients env (next_recipe_id w) (cf_ingredients_amount f)
                       (cf_ingredients_unit f) 0 (cf_ingredients_name f) w2))
      in (RecipeDetailPage r (select_ingredients w5 (next_recipe_id w))
            (select_steps w5 (next_recipe_id w)) (select_tags w5 (next_recipe_id w)) (Some u),
          sess, w5))"
  using assms
  by (simp add: recipe_create_def Let_def case_prod_beta add_recipe_def next_recipe_id_def)



lemma get_recipe_SomeD:
  "get_recipe w rid = Some r \<Longrightarrow> r \<in> set (recipes w) \<and> recipe_id r = rid"
  by (auto simp: get_recipe_def find_Some_iff)








section \<open>Order of ingredients and steps after a create\<close>

lemma create_ingredients_rows:
  "\<exists>N. ingredients (create_ingredients env rid am un idx names w) = ingredients w @ N \<and>
       (\<forall>i\<in>set N. ing_recipe_id i = rid) \<and>
       map (\<lambda>i. (ing_name i, ing_order_no i)) N =
         map (\<lambda>(i, n). (str_strip env n, int i))
           (filter (\<lambda>(i, n). str_strip env n \<noteq> []) (enumerate idx names))"
proof (induction names arbitrary: idx w)
  case Nil
  show ?case by simp
next
  case (Cons nm names)
  show ?case
  proof (cases "str_strip env nm = []")
    case True
    with Cons.IH [of "Suc idx" w] show ?thesis by simp
  next
    case False
    let ?w = "add_ingredient w rid (str_strip env nm) (map_option (str_strip env) (or_none (at_or_none am idx)))
                (map_option (str_strip env) (or_none (at_or_none un idx))) (int idx)"
    from Cons.IH [of "Suc idx" ?w] obtain N where
      N: "ingredients (create_ingredients env rid am un (Suc idx) names ?w) = ingredients ?w @ N"
         "\<forall>i\<in>set N. ing_recipe_id i = rid"
         "map (\<lambda>i. (ing_name i, ing_order_no i)) N =
            map (\<lambda>(i, n). (str_strip env n, int i))
              (filter (\<lambda>(i, n). str_strip env n \<noteq> []) (enumerate (Suc idx) names))"
      by blast
    obtain row where row: "ingredients ?w = ingredients w @ [row]" "ing_recipe_id row = rid"
      "ing_name row = str_strip env nm" "ing_order_no row = int idx"
      by (simp add: add_ingredient_def)
    show ?thesis
      using False N row
      by (intro exI [of _ "row # N"]) (simp add: Let_def)
  qed
qed

lemma create_steps_rows:
  "\<exists>N. steps (create_steps env rid f idxs w) = steps w @ N \<and>
       (\<forall>s\<in>set N. step_recipe_id s = rid) \<and>
       map (\<lambda>s. (body s, step_order_no s)) N =
         map (\<lambda>i. (step_body_at env f i, int i))
           (filter (\<lambda>i. step_body_at env f i \<noteq> [] \<or> step_has_upload f i) idxs)"
proof (induction idxs arbitrary: w)
  case Nil
  show ?case by simp
next
  case (Cons idx idxs)
  let ?res = "if idx < length (cf_steps_image f) then
                if truthy (filename (cf_steps_image f ! idx))
                then save_step_image env (Some (cf_steps_image f ! idx)) None None None None w
                else (None, w)
              else (None, w)"
  have b: "(if idx < length (cf_steps_body f) then str_strip env (cf_steps_body f ! idx)
            else str_strip env (if idx < length (cf_steps_body f) then cf_steps_body f ! idx else []))
           = step_body_at env f idx"
    by (simp add: step_body_at_def)
  have p: "truthy (fst ?res) = step_has_upload f idx"
    by (simp add: step_has_upload_def save_step_image_path) (simp add: truthy_def)
  have s: "steps (snd ?res) = steps w"
    by simp
  have unf: "create_steps env rid f (idx # idxs) w =
               (if step_body_at env f idx = [] \<and> \<not> step_has_upload f idx
                then create_steps env rid f idxs (snd ?res)
                else create_steps env rid f idxs
                       (add_step (snd ?res) rid (step_body_at env f idx) (int idx) (fst ?res)))"
    using b p by (simp add: Let_def case_prod_beta cong: if_cong)
  show ?case
  proof (cases "step_body_at env f idx = [] \<and> \<not> step_has_upload f idx")
    case True
    with Cons.IH [of "snd ?res"] s unf show ?thesis by auto
  next
    case False
    let ?w = "add_step (snd ?res) rid (step_body_at env f idx) (int idx) (fst ?res)"
    from Cons.IH [of ?w] obtain N where
      N: "steps (create_steps env rid f idxs ?w) = steps ?w @ N"
         "\<forall>s\<in>set N. step_recipe_id s = rid"
         "map (\<lambda>s. (body s, step_order_no s)) N =
            map (\<lambda>i. (step_body_at env f i, int i))
              (filter (\<lambda>i. step_body_at env f i \<noteq> [] \<or> step_has_upload f i) idxs)"
      by blast
    obtain row where row: "steps ?w = steps w @ [row]" "step_recipe_id row = rid"
      "body row = step_body_at env f idx" "step_order_no row = int idx"
      using s by (simp add: add_step_def)
    show ?thesis
      using False N row unf
      by (intro exI [of _ "row # N"]) auto
  qed
qed


lemma kept_ingredients_sorted:
  "sorted_wrt (<) (map snd (map (\<lambda>(i, n). (str_strip env n, int i))
      (filter (\<lambda>(i, n). str_strip env n \<noteq> []) (enumerate idx names))))"
proof -
  have "sorted_wrt (<) (map fst (enumerate idx names))"
    by simp
  then have "sorted_wrt (\<lambda>a b. fst a < fst b) (enumerate idx names)"
    by (simp only: sorted_wrt_map)
  then have "sorted_wrt (\<lambda>a b. fst a < fst b)
               (filter (\<lambda>(i, n). str_strip env n \<noteq> []) (enumerate idx names))"
    by (rule sorted_wrt_filter)
  then show ?thesis
    by (simp add: sorted_wrt_map case_prod_beta)
qed

lemma kept_steps_sorted:
  "sorted_wrt (<) (map snd (map (\<lambda>i. (step_body_at env f i, int i)) (filter P [m..<n])))"
proof -
  have "sorted_wrt (<) (filter P [m..<n])"
    by (rule sorted_wrt_filter) simp
  then show ?thesis
    by (simp add: sorted_wrt_map)
qed

lemma fold_max_ge: "(a::int) \<le> fold max xs a \<and> (\<forall>x\<in>set xs. x \<le> fold max xs a)"
proof (induction xs arbitrary: a)
  case Nil
  show ?case by simp
next
  case (Cons x xs)
  from Cons.IH [of "max x a"] show ?case by auto
qed

lemma recipe_id_less_next: "r \<in> set (recipes w) \<Longrightarrow> recipe_id r < next_recipe_id w"
  using fold_max_ge [of "recipe_seq w" "map recipe_id (recipes w)"]
  by (auto simp: next_recipe_id_def)

lemma find_append_new:
  assumes "\<forall>x\<in>set xs. \<not> P x" and "P y"
  shows "find P (xs @ [y]) = Some y"
  using assms by (induction xs) simp_all

lemma select_new_rows:
  fixes key :: "'a \<Rightarrow> int"
  assumes old: "list_all (\<lambda>x. rid_of x \<noteq> rid) old"
    and new: "\<forall>x\<in>set N. rid_of x = rid"
    and srt: "sorted_wrt (<) (map key N)"
  shows "sort_key key (filter (\<lambda>x. rid_of x = rid) (old @ N)) = N"
proof -
  have "filter (\<lambda>x. rid_of x = rid) old = []"
    using old by (simp add: list_all_iff filter_empty_conv)
  moreover have "filter (\<lambda>x. rid_of x = rid) N = N"
    using new by (simp add: filter_id_conv)
  moreover have "sort_key key N = N"
    using srt by (intro sort_key_id_if_sorted strict_sorted_imp_sorted)
  ultimately show ?thesis by simp
qed

lemma verify_csrf_None_truthy: "verify_csrf sess token = None \<Longrightarrow> truthy (sess_csrf_token sess)"
  by (auto simp: verify_csrf_def truthy_def split: option.splits if_splits)

lemma get_current_user_users:
  "users w' = users w \<Longrightarrow> get_current_user sess w' = get_current_user sess w"
  by (cases "sess_user_id sess") (simp_all add: get_current_user_def)

lemma select_recipes_update [simp]:
  "select_ingredients (w\<lparr>recipes := rs\<rparr>) rid = select_ingredients w rid \<and>
   select_steps (w\<lparr>recipes := rs\<rparr>) rid = select_steps w rid"
  by (simp add: select_ingredients_def select_steps_def)

lemma kept_ingredients_all:
  assumes "list_all (\<lambda>n. str_strip env n \<noteq> []) names"
  shows "map snd (kept_ingredients env names) = map int [0..<length names]"
proof -
  have "filter (\<lambda>(i, n). str_strip env n \<noteq> []) (enumerate 0 names) = enumerate 0 names"
    using assms by (auto simp: filter_id_conv list_all_iff in_set_enumerate_eq)
  then have "map snd (kept_ingredients env names) = map (\<lambda>p. int (fst p)) (enumerate 0 names)"
    by (simp add: kept_ingredients_def case_prod_beta)
  also have "\<dots> = map int (map fst (enumerate 0 names))"
    by (simp only: map_map o_def)
  finally show ?thesis by simp
qed

lemma kept_steps_all:
  assumes "list_all (\<lambda>i. step_body_at env f i \<noteq> [] \<or> step_has_upload f i)
             [0..<max (length (cf_steps_body f)) (length (cf_steps_image f))]"
  shows "map snd (kept_steps env f) =
           map int [0..<max (length (cf_steps_body f)) (length (cf_steps_image f))]"
proof -
  have "filter (\<lambda>i. step_body_at env f i \<noteq> [] \<or> step_has_upload f i)
          [0..<max (length (cf_steps_body f)) (length (cf_steps_image f))]
        = [0..<max (length (cf_steps_body f)) (length (cf_steps_image f))]"
    using assms by (simp add: filter_id_conv list_all_iff)
  then show ?thesis
    by (simp add: kept_steps_def o_def)
qed

text \<open>
  C7, as the claim states it, fails: a create request whose first ingredient name is
  empty and whose first step body is blank is accepted, the blank entries are skipped,
  and the stored ingredient and the stored step have order_no 1: the values do not
  start from 0.
\<close>

theorem create_order_from_zero_counterexample:
  "fst (recipe_create demo_env
          ((create_form0 ''Omelette'' ''tok'')
             \<lparr>cf_ingredients_name := [[], ''egg''],
              cf_steps_body := [''  '', ''beat eggs'']\<rparr>) sess_alice world0)
     = RecipeDetailPage
         \<lparr>recipe_id = 1, title = ''Omelette'', description = [], main_image = None,
          author_id = Some 1, view_count = 0\<rparr>
         [\<lparr>ing_id = 1, ing_recipe_id = 1, ing_name = ''egg'', amount = None, unit = None,
           ing_order_no = 1\<rparr>]
         [\<lparr>step_id = 1, step_recipe_id = 1, body = ''beat eggs'', step_order_no = 1,
           image_path = None\<rparr>]
         [] (Some alice)"
  by code_simp

text \<open>
  C7, amended: for every create request of a logged-in user with a valid token, in a
  database where the id the new recipe gets is an SQLite INTEGER and no ingredient or
  step row refers to it, the detail page answered by the create, and the detail page
  fetched right after it, list the kept entries in the order submitted: the
  ingredients whose name is not blank and the steps whose body is not blank or that
  have an uploaded image, stripped, each with order_no equal to its position in the
  submitted list. Blank means that Python's \<open>str.strip\<close> (\<open>str_strip\<close>, whatever
  characters it takes for whitespace) leaves nothing. So the order_no values are
  strictly increasing, and they are 0, 1, 2, ... when no submitted entry is skipped.
\<close>

theorem create_then_fetch_in_order:
  assumes login: "get_current_user sess w = Some u"
    and token: "verify_csrf sess (cf_csrf_token f) = None"
    and range: "sqlite_integer (next_recipe_id w)"
    and fresh: "next_id_unused w"
  shows "\<exists>r ings stps tgs w'.
           recipe_create env f sess w = (RecipeDetailPage r ings stps tgs (Some u), sess, w') \<and>
           map (\<lambda>i. (ing_name i, ing_order_no i)) ings = kept_ingredients env (cf_ingredients_name f) \<and>
           map (\<lambda>s. (body s, step_order_no s)) stps = kept_steps env f \<and>
           sorted_wrt (<) (map ing_order_no ings) \<and>
           sorted_wrt (<) (map step_order_no stps) \<and>
           (list_all (\<lambda>n. str_strip env n \<noteq> []) (cf_ingredients_name f) \<longrightarrow>
              map ing_order_no ings = map int [0..<length (cf_ingredients_name f)]) \<and>
           (list_all (\<lambda>i. step_body_at env f i \<noteq> [] \<or> step_has_upload f i)
              [0..<max (length (cf_steps_body f)) (length (cf_steps_image f))] \<longrightarrow>
              map step_order_no stps =
                map int [0..<max (length (cf_steps_body f)) (length (cf_steps_image f))]) \<and>
           (\<exists>r' tgs' sess' w''.
              recipe_detail env (recipe_id r) sess w' =
                (RecipeDetailPage r' ings stps tgs' (Some u), sess', w''))"
proof -
  let ?rid = "next_recipe_id w"
  let ?sm = "save_main_image env (cf_image f) (to_float_or_none env (cf_crop_x f))
               (to_float_or_none env (cf_crop_y f)) (to_float_or_none env (cf_crop_w f))
               (to_float_or_none env (cf_crop_h f)) w"
  let ?r = "\<lparr>recipe_id = ?rid, title = cf_title f, description = cf_description f,
             main_image = fst ?sm, author_id = Some (user_id u), view_count = 0\<rparr>"
  let ?w2 = "(snd ?sm)\<lparr>recipes := recipes w @ [?r], recipe_seq := ?rid\<rparr>"
  let ?w3 = "create_ingredients env ?rid (cf_ingredients_amount f) (cf_ingredients_unit f) 0
               (cf_ingredients_name f) ?w2"
  let ?w4 = "create_steps env ?rid f
               [0..<max (length (cf_steps_body f)) (length (cf_steps_image f))] ?w3"
  let ?w5 = "attach_tags env ?rid (split_on CHR '','' (cf_tags_csv f)) ?w4"
  have res: "recipe_create env f sess w =
               (RecipeDetailPage ?r (select_ingredients ?w5 ?rid) (select_steps ?w5 ?rid)
                  (select_tags ?w5 ?rid) (Some u), sess, ?w5)"
    using recipe_create_success [OF login token range, of env] by (simp add: Let_def)
  from create_ingredients_rows [of env ?rid "cf_ingredients_amount f" "cf_ingredients_unit f" 0
      "cf_ingredients_name f" ?w2]
  obtain NI where
    NI: "ingredients ?w3 = ingredients w @ NI" "\<forall>i\<in>set NI. ing_recipe_id i = ?rid"
      "map (\<lambda>i. (ing_name i, ing_order_no i)) NI = kept_ingredients env (cf_ingredients_name f)"
    by (auto simp: kept_ingredients_def)
  from create_steps_rows [of env ?rid f
      "[0..<max (length (cf_steps_body f)) (length (cf_steps_image f))]" ?w3]
  obtain NS where
    NS: "steps ?w4 = steps w @ NS" "\<forall>s\<in>set NS. step_recipe_id s = ?rid"
      "map (\<lambda>s. (body s, step_order_no s)) NS = kept_steps env f"
    by (auto simp: kept_steps_def)
  have "map ing_order_no NI = map snd (map (\<lambda>i. (ing_name i, ing_order_no i)) NI)"
    by simp
  then have si: "sorted_wrt (<) (map ing_order_no NI)"
    unfolding NI(3) kept_ingredients_def using kept_ingredients_sorted by simp
  have "map step_order_no NS = map snd (map (\<lambda>s. (body s, step_order_no s)) NS)"
    by simp
  then have ss: "sorted_wrt (<) (map step_order_no NS)"
    unfolding NS(3) kept_steps_def using kept_steps_sorted by simp
  have "ingredients ?w5 = ingredients w @ NI"
    using NI(1) by simp
  then have "select_ingredients ?w5 ?rid =
               sort_key ing_order_no (filter (\<lambda>i. ing_recipe_id i = ?rid) (ingredients w @ NI))"
    by (simp only: select_ingredients_def)
  also have "\<dots> = NI"
    using fresh NI(2) si by (intro select_new_rows) (simp_all add: next_id_unused_def)
  finally have ings: "select_ingredients ?w5 ?rid = NI" .
  have "steps ?w5 = steps w @ NS"
    using NS(1) by simp
  then have "select_steps ?w5 ?rid =
               sort_key step_order_no (filter (\<lambda>s. step_recipe_id s = ?rid) (steps w @ NS))"
    by (simp only: select_steps_def)
  also have "\<dots> = NS"
    using fresh NS(2) ss by (intro select_new_rows) (simp_all add: next_id_unused_def)
  finally have stps: "select_steps ?w5 ?rid = NS" .
  have ec: "ensure_csrf env sess ?w5 = (sess, ?w5)"
    using verify_csrf_None_truthy [OF token] by (simp add: ensure_csrf_def)
  have gr: "get_recipe ?w5 ?rid = Some ?r"
    unfolding get_recipe_def
    by (simp del: find.simps, rule find_append_new) (auto dest: recipe_id_less_next)
  have "users ?w5 = users w"
    by simp
  from get_current_user_users [OF this, of sess] login
  have cu: "get_current_user sess ?w5 = Some u"
    by simp
  have one: "sqlite_integer 1"
    by (simp add: sqlite_integer_def)
  have det: "\<exists>r' tgs' sess' w''.
               recipe_detail env ?rid sess ?w5 =
                 (RecipeDetailPage r' NI NS tgs' (Some u), sess', w'')"
    by (simp add: recipe_detail_def ec gr cu range one Let_def ings stps)
  have "map ing_order_no NI = map snd (kept_ingredients env (cf_ingredients_name f))"
    by (simp flip: NI(3))
  then have zi: "map ing_order_no NI = map int [0..<length (cf_ingredients_name f)]"
    if "list_all (\<lambda>n. str_strip env n \<noteq> []) (cf_ingredients_name f)"
    using that by (simp add: kept_ingredients_all)
  have "map step_order_no NS = map snd (kept_steps env f)"
    by (simp flip: NS(3))
  then have zs: "map step_order_no NS =
                   map int [0..<max (length (cf_steps_body f)) (length (cf_steps_image f))]"
    if "list_all (\<lambda>i. step_body_at env f i \<noteq> [] \<or> step_has_upload f i)
          [0..<max (length (cf_steps_body f)) (length (cf_steps_image f))]"
    using that by (simp add: kept_steps_all)
  show ?thesis
    unfolding res using NI(3) NS(3) si ss det ings stps zi zs by simp
qed

theorem create_then_fetch_in_order_witness:
  "get_current_user sess_alice world1 = Some alice \<and>
   verify_csrf sess_alice (cf_csrf_token omelette_form) = None \<and>
   sqlite_integer (next_recipe_id world1) \<and>
   next_id_unused world1 \<and>
   list_all (\<lambda>n. str_strip demo_env n \<noteq> []) (cf_ingredients_name omelette_form) \<and>
   list_all (\<lambda>i. step_body_at demo_env omelette_form i \<noteq> [] \<or> step_has_upload omelette_form i)
     [0..<max (length (cf_steps_body omelette_form)) (length (cf_steps_image omelette_form))] \<and>
   kept_ingredients demo_env (cf_ingredients_name omelette_form) = [(''egg'', 0), (''salt'', 1)] \<and>
   kept_steps demo_env omelette_form = [(''beat eggs'', 0), (''fry'', 1)] \<and>
   (\<exists>r ings stps tgs w'.
      recipe_create demo_env omelette_form sess_alice world1 =
        (RecipeDetailPage r ings stps tgs (Some alice), sess_alice, w') \<and>
      map (\<lambda>i. (ing_name i, ing_order_no i)) ings = [(''egg'', 0), (''salt'', 1)] \<and>
      map (\<lambda>s. (body s, step_order_no s)) stps = [(''beat eggs'', 0), (''fry'', 1)] \<and>
      map ing_order_no ings = [0, 1] \<and>
      map step_order_no stps = [0, 1] \<and>
      (\<exists>r' tgs' sess' w''.
         recipe_detail demo_env (recipe_id r) sess_alice w' =
           (RecipeDetailPage r' ings stps tgs' (Some alice), sess', w'')))"
proof -
  have t: "verify_csrf sess_alice (cf_csrf_token omelette_form) = None"
    using alice_token_ok by (simp add: omelette_form_def create_form0_def)
  have n: "next_id_unused world1"
    by code_simp
  have g: "sqlite_integer (next_recipe_id world1)"
    by code_simp
  have a: "list_all (\<lambda>n. str_strip demo_env n \<noteq> []) (cf_ingredients_name omelette_form)"
    by code_simp
  have b: "list_all (\<lambda>i. step_body_at demo_env omelette_form i \<noteq> [] \<or> step_has_upload omelette_form i)
     [0..<max (length (cf_steps_body omelette_form)) (length (cf_steps_image omelette_form))]"
    by code_simp
  have ki: "kept_ingredients demo_env (cf_ingredients_name omelette_form) = [(''egg'', 0), (''salt'', 1)]"
    by code_simp
  have ks: "kept_steps demo_env omelette_form = [(''beat eggs'', 0), (''fry'', 1)]"
    by code_simp
  have l: "map int [0..<length (cf_ingredients_name omelette_form)] = [0, 1]"
    "map int [0..<max (length (cf_steps_body omelette_form))
                    (length (cf_steps_image omelette_form))] = [0, 1]"
    by code_simp+
  from create_then_fetch_in_order [OF alice_logged_in_world1 t g n, of demo_env]
  obtain r ings stps tgs w' where
    r: "recipe_create demo_env omelette_form sess_alice world1 =
          (RecipeDetailPage r ings stps tgs (Some alice), sess_alice, w')"
      "map (\<lambda>i. (ing_name i, ing_order_no i)) ings = kept_ingredients demo_env (cf_ingredients_name omelette_form)"
      "map (\<lambda>s. (body s, step_order_no s)) stps = kept_steps demo_env omelette_form"
      "list_all (\<lambda>n. str_strip demo_env n \<noteq> []) (cf_ingredients_name omelette_form) \<longrightarrow>
         map ing_order_no ings = map int [0..<length (cf_ingredients_name omelette_form)]"
      "list_all (\<lambda>i. step_body_at demo_env omelette_form i \<noteq> [] \<or> step_has_upload omelette_form i)
         [0..<max (length (cf_steps_body omelette_form)) (length (cf_steps_image omelette_form))] \<longrightarrow>
         map step_order_no stps =
           map int [0..<max (length (cf_steps_body omelette_form))
                          (length (cf_steps_image omelette_form))]"
      "\<exists>r' tgs' sess' w''.
         recipe_detail demo_env (recipe_id r) sess_alice w' =
           (RecipeDetailPage r' ings stps tgs' (Some alice), sess', w'')"
    by blast
  from r(2) ki have ri: "map (\<lambda>i. (ing_name i, ing_order_no i)) ings = [(''egg'', 0), (''salt'', 1)]"
    by simp
  from r(3) ks have rs: "map (\<lambda>s. (body s, step_order_no s)) stps = [(''beat eggs'', 0), (''fry'', 1)]"
    by simp
  from r(4) a l(1) have oi: "map ing_order_no ings = [0, 1]" by simp
  from r(5) b l(2) have os: "map step_order_no stps = [0, 1]" by simp
  have "\<exists>r ings stps tgs w'.
      recipe_create demo_env omelette_form sess_alice world1 =
        (RecipeDetailPage r ings stps tgs (Some alice), sess_alice, w') \<and>
      map (\<lambda>i. (ing_name i, ing_order_no i)) ings = [(''egg'', 0), (''salt'', 1)] \<and>
      map (\<lambda>s. (body s, step_order_no s)) stps = [(''beat eggs'', 0), (''fry'', 1)] \<and>
      map ing_order_no ings = [0, 1] \<and>
      map step_order_no stps = [0, 1] \<and>
      (\<exists>r' tgs' sess' w''.
         recipe_detail demo_env (recipe_id r) sess_alice w' =
           (RecipeDetailPage r' ings stps tgs' (Some alice), sess', w''))"
    by (rule exI [of _ r], rule exI [of _ ings], rule exI [of _ stps], rule exI [of _ tgs],
        rule exI [of _ w']) (simp add: r(1) ri rs oi os r(6))
  with alice_logged_in_world1 t g n a b ki ks show ?thesis by blast
qed

section \<open>The handlers keep the recipe ids issued\<close>

lemma seq_less_next: "recipe_seq w < next_recipe_id w"
  using fold_max_ge [of "recipe_seq w" "map recipe_id (recipes w)"]
  by (simp add: next_recipe_id_def)

lemma ids_issued_unused: "ids_issued w \<Longrightarrow> next_id_unused w"
  using seq_less_next [of w]
  by (auto simp: ids_issued_def next_id_unused_def list_all_iff)

lemma ids_issued_world0: "ids_issued world0"
  by (simp add: ids_issued_def world0_def)

lemma update_ingredients_rids:
  "i \<in> set (ingredients (update_ingredients env rid am idx names w)) \<Longrightarrow>
   ing_recipe_id i = rid \<or> i \<in> set (ingredients w)"
proof (induction names arbitrary: idx w)
  case Nil
  then show ?case by simp
next
  case (Cons nm names)
  show ?case
  proof (cases "str_strip env nm = []")
    case True
    with Cons.prems Cons.IH [of "Suc idx" w] show ?thesis by simp
  next
    case False
    let ?w = "add_ingredient w rid (str_strip env nm) (map_option (str_strip env) (or_none (at_or_none am idx)))
                None (int idx)"
    from Cons.prems False have "i \<in> set (ingredients (update_ingredients env rid am (Suc idx) names ?w))"
      by (simp add: Let_def)
    from Cons.IH [OF this] show ?thesis
      by (auto simp: add_ingredient_def)
  qed
qed

lemma update_steps_rids:
  "s \<in> set (steps (update_steps env rid bodies olds imgs idxs w)) \<Longrightarrow>
   step_recipe_id s = rid \<or> s \<in> set (steps w)"
proof (induction idxs arbitrary: w)
  case Nil
  then show ?case by simp
next
  case (Cons idx idxs)
  let ?res = "if idx < length imgs then
                if truthy (filename (imgs ! idx))
                then save_step_image env (Some (imgs ! idx)) None None None None w
                else (None, w)
              else (None, w)"
  let ?b = "str_strip env (if idx < length bodies then bodies ! idx else [])"
  let ?p = "if \<not> truthy (fst ?res) then or_none (at_or_none olds idx) else fst ?res"
  have s: "steps (snd ?res) = steps w"
    by simp
  show ?case
  proof (cases "?b = [] \<and> \<not> truthy ?p")
    case True
    with Cons.prems have "s \<in> set (steps (update_steps env rid bodies olds imgs idxs (snd ?res)))"
      by (simp add: Let_def case_prod_beta cong: if_cong)
    from Cons.IH [OF this] s show ?thesis by simp
  next
    case False
    let ?w = "add_step (snd ?res) rid ?b (int idx) ?p"
    from Cons.prems False have "s \<in> set (steps (update_steps env rid bodies olds imgs idxs ?w))"
      by (simp add: Let_def case_prod_beta cong: if_cong)
    from Cons.IH [OF this] s show ?thesis
      by (auto simp: add_step_def)
  qed
qed

lemma recipe_create_ids_issued:
  assumes "ids_issued w"
  shows "ids_issued (snd (snd (recipe_create env f sess w)))"
proof (cases "get_current_user sess w")
  case None
  with assms show ?thesis by (simp add: recipe_create_def)
next
  case (Some u)
  show ?thesis
  proof (cases "verify_csrf sess (cf_csrf_token f)")
    case (Some e)
    with \<open>get_current_user sess w = Some u\<close> assms show ?thesis
      by (simp add: recipe_create_def)
  next
    case None
    note v = this
    let ?rid = "next_recipe_id w"
    let ?sm = "save_main_image env (cf_image f) (to_float_or_none env (cf_crop_x f))
                 (to_float_or_none env (cf_crop_y f)) (to_float_or_none env (cf_crop_w f))
                 (to_float_or_none env (cf_crop_h f)) w"
    show ?thesis
    proof (cases "sqlite_integer ?rid")
      case False
      then have "snd (snd (recipe_create env f sess w)) = snd ?sm"
        using \<open>get_current_user sess w = Some u\<close> v
        by (simp add: recipe_create_def Let_def case_prod_beta next_recipe_id_def)
      with assms show ?thesis
        by (simp add: ids_issued_def)
    next
      case True
      let ?r = "\<lparr>recipe_id = ?rid, title = cf_title f, description = cf_description f,
                 main_image = fst ?sm, author_id = Some (user_id u), view_count = 0\<rparr>"
      let ?w2 = "(snd ?sm)\<lparr>recipes := recipes w @ [?r], recipe_seq := ?rid\<rparr>"
      let ?w3 = "create_ingredients env ?rid (cf_ingredients_amount f) (cf_ingredients_unit f) 0
                   (cf_ingredients_name f) ?w2"
      let ?w4 = "create_steps env ?rid f
                   [0..<max (length (cf_steps_body f)) (length (cf_steps_image f))] ?w3"
      let ?w5 = "attach_tags env ?rid (split_on CHR '','' (cf_tags_csv f)) ?w4"
      have res: "snd (snd (recipe_create env f sess w)) = ?w5"
        using recipe_create_success [OF \<open>get_current_user sess w = Some u\<close> v True, of env]
        by (simp add: Let_def)
      from create_ingredients_rows [of env ?rid "cf_ingredients_amount f" "cf_ingredients_unit f" 0
          "cf_ingredients_name f" ?w2]
      obtain NI where NI: "ingredients ?w3 = ingredients w @ NI"
        "\<forall>i\<in>set NI. ing_recipe_id i = ?rid"
        by auto
      from create_steps_rows [of env ?rid f
          "[0..<max (length (cf_steps_body f)) (length (cf_steps_image f))]" ?w3]
      obtain NS where NS: "steps ?w4 = steps w @ NS" "\<forall>s\<in>set NS. step_recipe_id s = ?rid"
        by auto
      have 1: "recipes ?w5 = recipes w @ [?r]" "recipe_seq ?w5 = ?rid"
        "ingredients ?w5 = ingredients w @ NI" "steps ?w5 = steps w @ NS"
        using NI(1) NS(1) by simp_all
      show ?thesis
        unfolding res ids_issued_def 1
        using assms NI(2) NS(2) seq_less_next [of w]
        by (auto simp: ids_issued_def list_all_iff)
    qed
  qed
qed

lemma recipe_update_ids_issued:
  assumes "ids_issued w"
  shows "ids_issued (snd (snd (recipe_update env rid f sess w)))"
proof (cases "get_current_user sess w")
  case None
  with assms show ?thesis by (simp add: recipe_update_def)
next
  case (Some u)
  note u = this
  show ?thesis
  proof (cases "verify_csrf sess (uf_csrf_token f)")
    case (Some e)
    with u assms show ?thesis by (simp add: recipe_update_def)
  next
    case None
    note v = this
    show ?thesis
    proof (cases "sqlite_integer rid")
      case False
      with u v assms show ?thesis by (simp add: recipe_update_def Let_def)
    next
      case True
      note g = this
      show ?thesis
      proof (cases "get_recipe w rid")
        case None
        with u v g assms show ?thesis by (simp add: recipe_update_def Let_def)
      next
        case (Some r)
        from get_recipe_SomeD [OF Some] assms have rid: "rid \<le> recipe_seq w"
          by (auto simp: ids_issued_def list_all_iff)
        show ?thesis
        proof (cases "author_id r = Some (user_id u)")
          case False
          with u v g Some assms show ?thesis by (simp add: recipe_update_def Let_def)
        next
          case True
          from get_recipe_SomeD [OF Some] have rr: "recipe_id r = rid"
            by simp
          show ?thesis
            using u v g Some True assms rid rr
            by (auto simp: recipe_update_def Let_def case_prod_beta ids_issued_def list_all_iff
                  split: option.splits dest!: update_ingredients_rids update_steps_rids)
        qed
      qed
    qed
  qed
qed

lemma recipe_delete_ids_issued:
  assumes "ids_issued w"
  shows "ids_issued (snd (snd (recipe_delete rid token sess w)))"
  using assms
  by (auto simp: recipe_delete_def ids_issued_def list_all_iff
        split: option.splits sum.splits prod.splits)

lemma other_handlers_ids_issued:
  assumes "ids_issued w"
  shows "ids_issued (snd (snd (signup env em pw token sess w))) \<and>
         ids_issued (snd (snd (login env em pw token sess w))) \<and>
         ids_issued (snd (snd (logout token sess w))) \<and>
         ids_issued (snd (snd (favorite_recipe rid token sess w))) \<and>
         ids_issued (snd (snd (unfavorite_recipe rid token sess w))) \<and>
         ids_issued (snd (snd (favorites_page env ord sess w))) \<and>
         ids_issued (snd (snd (recipe_detail env rid sess w)))"
proof -
  have e: "ids_issued (snd (ensure_csrf env s w))" for s
    using assms by (simp add: ensure_csrf_def ids_issued_def)
  have 1: "ids_issued (snd (snd (signup env em pw token sess w)))"
    using assms e [of sess]
    by (auto simp: signup_def Let_def ids_issued_def split: option.splits prod.splits)
  have 2: "ids_issued (snd (snd (login env em pw token sess w)))"
    using assms e [of sess]
    by (auto simp: login_def Let_def ids_issued_def split: option.splits prod.splits)
  have 3: "ids_issued (snd (snd (logout token sess w)))"
    using assms by (simp add: logout_def split: option.splits)
  have 4: "ids_issued (snd (snd (favorite_recipe rid token sess w)))"
    using assms by (simp add: favorite_recipe_def ids_issued_def split: option.splits)
  have 5: "ids_issued (snd (snd (unfavorite_recipe rid token sess w)))"
    using assms by (simp add: unfavorite_recipe_def ids_issued_def split: option.splits)
  have 6: "ids_issued (snd (snd (favorites_page env ord sess w)))"
    using e [of sess]
    by (simp add: favorites_page_def Let_def case_prod_beta split: sum.splits)
  have 7: "ids_issued (snd (snd (recipe_detail env rid sess w)))"
    using e [of sess]
    by (auto simp: recipe_detail_def Let_def ids_issued_def list_all_iff
          split: prod.splits option.splits dest: get_recipe_SomeD)
  from 1 2 3 4 5 6 7 show ?thesis by simp
qed

end
